theory Spec2Isabelle
  imports
    Main
    "HOL-Library.Word"
    "HOL-Library.Char_ord"
    "HOL-Library.List_Lexorder"
    "HOL-Library.Sublist"
    "HOL-Library.Multiset"
    "HOL-Library.AList"
begin

unbundle bit_operations_syntax

section \<open>Strings, errors and the library functions used by package.go\<close>

text \<open>
  A Go string is a sequence of bytes and so is an Isabelle \<^typ>\<open>string\<close> (a list of 8-bit
  characters). Go compares strings byte by byte, shorter prefix first, which is the order of
  \<open>List_Lexorder\<close> over \<open>Char_ord\<close>; \<open>sort.Strings\<close> is therefore \<^const>\<open>sort\<close> on
  \<^typ>\<open>string list\<close>, and \<open>strings.Join(xs, "")\<close> is \<^const>\<open>concat\<close>.

  An \<open>error\<close> is modelled by its message. \<open>errors.New(msg)\<close> is the message itself and
  \<open>errors.Wrap(err, msg)\<close> prefixes the context, as \<open>github.com/pkg/errors\<close> prints it.
  A Go result pair \<open>(value, err)\<close> is a pair whose second component is \<open>None\<close> for
  \<open>nil\<close>.
\<close>

type_synonym error = string

definition Wrap :: "error \<Rightarrow> string \<Rightarrow> error" where
  "Wrap err msg = msg @ '': '' @ err"

text \<open>\<open>strings.TrimPrefix\<close>: the string without the leading prefix, or unchanged.\<close>

definition TrimPrefix :: "string \<Rightarrow> string \<Rightarrow> string" where
  "TrimPrefix s pre = (if prefix pre s then drop (length pre) s else s)"

text \<open>\<open>filepath.Separator\<close> on the platforms the tool is released for.\<close>

definition Separator :: char where
  "Separator = CHR ''/''"

subsection \<open>crypto/sha1 and the \<open>%x\<close> verb\<close>

text \<open>
  \<open>sha1.New()\<close>, \<open>h.Write(b)\<close>, \<open>h.Sum(nil)\<close> compute the SHA-1 digest of \<open>b\<close>
  (FIPS 180-4) over 32-bit words; \<open>Write\<close> of a hash never returns an error, so the
  \<open>err != nil\<close> branches after it in package.go are dead and have no counterpart here.
\<close>

type_synonym w32 = "32 word"
type_synonym byte = "8 word"

definition rotl :: "nat \<Rightarrow> w32 \<Rightarrow> w32" where
  "rotl n x = (push_bit n x) OR (drop_bit (32 - n) x)"

definition be_bytes64 :: "64 word \<Rightarrow> byte list" where
  "be_bytes64 n = map (\<lambda>i. ucast (drop_bit (8 * i) n)) (rev [0..<8])"

definition be_bytes32 :: "w32 \<Rightarrow> byte list" where
  "be_bytes32 n = map (\<lambda>i. ucast (drop_bit (8 * i) n)) (rev [0..<4])"

definition sha1_pad :: "byte list \<Rightarrow> byte list" where
  "sha1_pad m = m @ [0x80] @ replicate ((119 - length m mod 64) mod 64) 0
                 @ be_bytes64 (8 * of_nat (length m))"

definition be_word :: "byte list \<Rightarrow> w32" where
  "be_word bs = foldl (\<lambda>acc b. push_bit 8 acc OR ucast b) 0 bs"

fun chunks :: "nat \<Rightarrow> 'a list \<Rightarrow> 'a list list" where
  "chunks n [] = []"
| "chunks n (x # xs) = take (Suc (n - 1)) (x # xs) # chunks n (drop (n - 1) xs)"

fun schedule :: "nat \<Rightarrow> w32 list \<Rightarrow> w32 list" where
  "schedule 0 w = w"
| "schedule (Suc n) w =
     schedule n (w @ [rotl 1 (w ! (length w - 3) XOR w ! (length w - 8)
                               XOR w ! (length w - 14) XOR w ! (length w - 16))])"

type_synonym sha1_state = "w32 \<times> w32 \<times> w32 \<times> w32 \<times> w32"

definition sha1_f :: "nat \<Rightarrow> w32 \<Rightarrow> w32 \<Rightarrow> w32 \<Rightarrow> w32" where
  "sha1_f t b c d =
     (if t < 20 then (b AND c) OR (NOT b AND d)
      else if t < 40 then b XOR c XOR d
      else if t < 60 then (b AND c) OR (b AND d) OR (c AND d)
      else b XOR c XOR d)"

definition sha1_k :: "nat \<Rightarrow> w32" where
  "sha1_k t = (if t < 20 then 0x5A827999 else if t < 40 then 0x6ED9EBA1
               else if t < 60 then 0x8F1BBCDC else 0xCA62C1D6)"

fun sha1_rounds :: "nat \<Rightarrow> w32 list \<Rightarrow> sha1_state \<Rightarrow> sha1_state" where
  "sha1_rounds t [] s = s"
| "sha1_rounds t (w # ws) (a, b, c, d, e) =
     sha1_rounds (Suc t) ws
       (rotl 5 a + sha1_f t b c d + e + w + sha1_k t, a, rotl 30 b, c, d)"

definition sha1_block :: "sha1_state \<Rightarrow> byte list \<Rightarrow> sha1_state" where
  "sha1_block s blk =
     (case s of (h0, h1, h2, h3, h4) \<Rightarrow>
        (case sha1_rounds 0 (schedule 64 (map be_word (chunks 4 blk))) s of
           (a, b, c, d, e) \<Rightarrow> (h0 + a, h1 + b, h2 + c, h3 + d, h4 + e)))"

definition sha1_Sum :: "byte list \<Rightarrow> byte list" where
  "sha1_Sum m =
     (case foldl sha1_block (0x67452301, 0xEFCDAB89, 0x98BADCFE, 0x10325476, 0xC3D2E1F0)
             (chunks 64 (sha1_pad m)) of
        (h0, h1, h2, h3, h4) \<Rightarrow> concat (map be_bytes32 [h0, h1, h2, h3, h4]))"

text \<open>\<open>fmt.Sprintf("%x", b)\<close> on a byte slice: two lower-case hex digits per byte.\<close>

definition hexdigit :: "nat \<Rightarrow> char" where
  "hexdigit n = ''0123456789abcdef'' ! n"

definition hex :: "byte list \<Rightarrow> string" where
  "hex bs = concat (map (\<lambda>b. [hexdigit (unat b div 16), hexdigit (unat b mod 16)]) bs)"

definition bytes :: "string \<Rightarrow> byte list" where
  "bytes s = map of_char s"

text \<open>The idiom of package.go: hash a string, print the digest with \<open>%x\<close>.\<close>

definition sha1hex :: "string \<Rightarrow> string" where
  "sha1hex s = hex (sha1_Sum (bytes s))"

subsection \<open>html/template\<close>

text \<open>
  package.go imports \<open>html/template\<close>, not \<open>text/template\<close>. Every action of
  \<open>packageTemplate\<close> stands in HTML text context, where the engine pipes the value through
  its HTML escaper: the replacement table below, applied to each byte (bytes outside
  the table, also those of multi-byte runes, pass unchanged).
\<close>

definition htmlEscapeChar :: "char \<Rightarrow> string" where
  "htmlEscapeChar c =
     (if c = CHR 0x00 then [CHR 0xEF, CHR 0xBF, CHR 0xBD]
      else if c = CHR 0x22 then ''&#34;''
      else if c = CHR ''&'' then ''&amp;''
      else if c = CHR 0x27 then ''&#39;''
      else if c = CHR ''+'' then ''&#43;''
      else if c = CHR ''<'' then ''&lt;''
      else if c = CHR ''>'' then ''&gt;''
      else [c])"

definition htmlEscape :: "string \<Rightarrow> string" where
  "htmlEscape s = concat (map htmlEscapeChar s)"

section \<open>Data model\<close>

text \<open>
  Modelled from the spec: the type \<open>File\<close> is declared outside package.go. The spec gives
  the fields package.go reads: \<open>ID\<close>, \<open>Name\<close>, \<open>Checksum\<close> and \<open>LicenseInfoInFile\<close>
  (suffixed \<open>_F\<close> where \<open>Package\<close> has a field of the same name). \<open>Checksum\<close> is a Go map
  that may be \<open>nil\<close>, which \<open>Render\<close> tells apart from an empty map.
\<close>

record File =
  ID_F :: string
  Name_F :: string
  Checksum_F :: "(string \<rightharpoonup> string) option"
  LicenseInfoInFile :: string

text \<open>The anonymous structs of \<open>Supplier\<close> and \<open>Originator\<close>, and \<open>PackageOptions\<close>.\<close>

record Party =
  Person :: string
  Organization :: string

record PackageOptions =
  WorkDir :: string

text \<open>
  The struct \<open>Package\<close>, field by field in the order of the source; the embedded
  \<open>sync.RWMutex\<close> has no state in a sequential model. The three maps keyed by ID are
  association lists: Go leaves the order of \<open>range\<close> over a map unspecified, and the order
  of the list stands for the order the runtime happens to pick. A \<open>nil\<close> map and an empty
  map behave alike under \<open>len\<close>, lookup and \<open>range\<close>, the only operations package.go
  applies before it allocates, so both are the empty list. The maps hold pointers; the
  model holds the files and packages themselves, since a node has one owner and is
  reached through it only. \<open>options\<close> is a pointer that may be \<open>nil\<close>, which is
  \<open>None\<close>.
\<close>

datatype Package = Package
  (FilesAnalyzed: bool)
  (Name: string)
  (ID: string)
  (DownloadLocation: string)
  (VerificationCode: string)
  (LicenseConcluded: string)
  (LicenseInfoFromFiles: "string list")
  (LicenseDeclared: string)
  (LicenseComments: string)
  (CopyrightText: string)
  (Version: string)
  (FileName: string)
  (SourceFile: string)
  (Supplier: Party)
  (Originator: Party)
  (Packages: "(string \<times> Package) list")
  (Files: "(string \<times> File) list")
  (Checksum: "(string \<times> string) list")
  (Dependencies: "(string \<times> Package) list")
  (options: "PackageOptions option")

text \<open>Assignments to single fields of a package.\<close>

fun set_ID :: "string \<Rightarrow> Package \<Rightarrow> Package" where
  "set_ID v (Package fa nm i dl vc lc lf ld lm ct ve fn sf su og ps fs cs ds op) =
     Package fa nm v dl vc lc lf ld lm ct ve fn sf su og ps fs cs ds op"

fun set_VerificationCode :: "string \<Rightarrow> Package \<Rightarrow> Package" where
  "set_VerificationCode v (Package fa nm i dl vc lc lf ld lm ct ve fn sf su og ps fs cs ds op) =
     Package fa nm i dl v lc lf ld lm ct ve fn sf su og ps fs cs ds op"

fun set_LicenseInfoFromFiles :: "string list \<Rightarrow> Package \<Rightarrow> Package" where
  "set_LicenseInfoFromFiles v (Package fa nm i dl vc lc lf ld lm ct ve fn sf su og ps fs cs ds op) =
     Package fa nm i dl vc lc v ld lm ct ve fn sf su og ps fs cs ds op"

fun set_FileName :: "string \<Rightarrow> Package \<Rightarrow> Package" where
  "set_FileName v (Package fa nm i dl vc lc lf ld lm ct ve fn sf su og ps fs cs ds op) =
     Package fa nm i dl vc lc lf ld lm ct ve v sf su og ps fs cs ds op"

fun set_SourceFile :: "string \<Rightarrow> Package \<Rightarrow> Package" where
  "set_SourceFile v (Package fa nm i dl vc lc lf ld lm ct ve fn sf su og ps fs cs ds op) =
     Package fa nm i dl vc lc lf ld lm ct ve fn v su og ps fs cs ds op"

fun set_Packages :: "(string \<times> Package) list \<Rightarrow> Package \<Rightarrow> Package" where
  "set_Packages v (Package fa nm i dl vc lc lf ld lm ct ve fn sf su og ps fs cs ds op) =
     Package fa nm i dl vc lc lf ld lm ct ve fn sf su og v fs cs ds op"

fun set_Files :: "(string \<times> File) list \<Rightarrow> Package \<Rightarrow> Package" where
  "set_Files v (Package fa nm i dl vc lc lf ld lm ct ve fn sf su og ps fs cs ds op) =
     Package fa nm i dl vc lc lf ld lm ct ve fn sf su og ps v cs ds op"

fun set_Checksum :: "(string \<times> string) list \<Rightarrow> Package \<Rightarrow> Package" where
  "set_Checksum v (Package fa nm i dl vc lc lf ld lm ct ve fn sf su og ps fs cs ds op) =
     Package fa nm i dl vc lc lf ld lm ct ve fn sf su og ps fs v ds op"

fun set_Dependencies :: "(string \<times> Package) list \<Rightarrow> Package \<Rightarrow> Package" where
  "set_Dependencies v (Package fa nm i dl vc lc lf ld lm ct ve fn sf su og ps fs cs ds op) =
     Package fa nm i dl vc lc lf ld lm ct ve fn sf su og ps fs cs v op"

text \<open>\<open>NewPackage\<close>: the zero value of every field, and freshly allocated options.\<close>

definition NewPackage :: Package where
  "NewPackage =
     Package False '''' '''' '''' '''' '''' [] '''' '''' '''' '''' '''' ''''
       \<lparr>Person = '''', Organization = ''''\<rparr> \<lparr>Person = '''', Organization = ''''\<rparr>
       [] [] [] [] (Some \<lparr>WorkDir = ''''\<rparr>)"

text \<open>
  Modelled from the spec: the constants \<open>NONE\<close>, \<open>NOASSERTION\<close> and \<open>validNameCharsRe\<close>
  are declared outside package.go. The spec names the two sentinels by their text, and
  describes the regular expression as matching every character outside letters, digits,
  \<open>.\<close> and \<open>-\<close>; \<open>validNameChar\<close> is the complement of what it matches, on bytes (every
  byte of a multi-byte rune is outside the set, so it is removed either way).
\<close>

definition NONE :: string where
  "NONE = ''NONE''"

definition NOASSERTION :: string where
  "NOASSERTION = ''NOASSERTION''"

definition validNameChar :: "char \<Rightarrow> bool" where
  "validNameChar c =
     ((CHR ''a'' \<le> c \<and> c \<le> CHR ''z'') \<or> (CHR ''A'' \<le> c \<and> c \<le> CHR ''Z'')
      \<or> (CHR ''0'' \<le> c \<and> c \<le> CHR ''9'') \<or> c = CHR ''.'' \<or> c = CHR ''-'')"

section \<open>Operations of package.go\<close>

subsection \<open>ReadSourceFile\<close>

text \<open>
  The file system is outside the program: \<open>util.Exists\<close>, \<open>hash.SHA256ForFile\<close> and
  \<open>hash.SHA512ForFile\<close> are parameters (\<open>exists\<close>, \<open>sha256\<close>, \<open>sha512\<close>), the two
  hash functions returning an error or a hex digest. A call either returns its error
  and the package as it leaves it, or panics: \<open>p.Options().WorkDir\<close> dereferences
  \<open>options\<close>, which is \<open>nil\<close> in a package not built by \<open>NewPackage\<close>.
\<close>

datatype 'a outcome = Returns 'a | Panics

definition ReadSourceFile ::
  "(string \<Rightarrow> bool) \<Rightarrow> (string \<Rightarrow> error + string) \<Rightarrow> (string \<Rightarrow> error + string)
     \<Rightarrow> Package \<Rightarrow> string \<Rightarrow> (error option \<times> Package) outcome" where
  "ReadSourceFile exists sha256 sha512 p path =
     (if \<not> exists path then Returns (Some ''unable to find package source file'', p)
      else case sha256 path of
        Inl err \<Rightarrow> Returns (Some (Wrap err ''getting source file sha256''), p)
      | Inr s256 \<Rightarrow>
         (case sha512 path of
            Inl err \<Rightarrow> Returns (Some (Wrap err ''getting source file sha512''), p)
          | Inr s512 \<Rightarrow>
             (let p1 = set_Checksum [(''SHA256'', s256), (''SHA512'', s512)] p;
                  p2 = set_SourceFile path p1
              in case options p2 of
                   None \<Rightarrow> Panics
                 | Some opts \<Rightarrow>
                     Returns (None,
                       set_FileName (TrimPrefix path (WorkDir opts @ [Separator])) p2))))"

subsection \<open>AddFile\<close>

text \<open>
  \<open>AddFile\<close> writes to the file it is given (its ID) and to the package (its \<open>Files\<close>),
  so the model returns the error, the package and the file. \<open>p.Files[file.ID] = file\<close>
  is \<^const>\<open>AList.update\<close>: an entry under the same key is replaced.
\<close>

definition AddFile :: "Package \<Rightarrow> File \<Rightarrow> error option \<times> Package \<times> File" where
  "AddFile p file =
     (if ID_F file = '''' then
        if Name_F file = '''' then
          (Some ''unable to generate file ID, filename not set'', p, file)
        else if Name p = '''' then
          (Some ''unable to generate file ID, package not set'', p, file)
        else
          (let file1 = file\<lparr>ID_F := ''SPDXRef-File-'' @ sha1hex (Name p @ '':'' @ Name_F file)\<rparr>
           in (None, set_Files (AList.update (ID_F file1) file1 (Files p)) p, file1))
      else (None, set_Files (AList.update (ID_F file) file (Files p)) p, file))"

subsection \<open>preProcessSubPackage, AddPackage, AddDependency\<close>

text \<open>
  \<open>reg.ReplaceAllString(pkg.Name, "")\<close> deletes every match of \<open>validNameCharsRe\<close>,
  which keeps exactly the valid characters. \<open>preProcessSubPackage\<close> may assign the ID of
  the package it is given, so it returns that package with the error.
\<close>

definition preProcessSubPackage :: "Package \<Rightarrow> Package \<Rightarrow> error option \<times> Package" where
  "preProcessSubPackage p pkg =
     (let pkg1 =
        (if ID pkg = '''' then
           (let id = filter validNameChar (Name pkg)
            in if id \<noteq> '''' then set_ID (''SPDXRef-Package-'' @ id) pkg else pkg)
         else pkg)
      in if ID pkg1 = '''' then
           (Some ''package name is needed to add a new package'', pkg1)
         else if map_of (Packages p) (ID pkg1) \<noteq> None then
           (Some (''a package named '' @ ID pkg1 @ '' already exists as a subpackage''), pkg1)
         else if map_of (Dependencies p) (ID pkg1) \<noteq> None then
           (Some (''a package named '' @ ID pkg1 @ '' already exists as a dependency''), pkg1)
         else (None, pkg1))"

definition AddPackage :: "Package \<Rightarrow> Package \<Rightarrow> error option \<times> Package \<times> Package" where
  "AddPackage p pkg =
     (case preProcessSubPackage p pkg of
        (Some err, pkg1) \<Rightarrow> (Some (Wrap err ''performing subpackage preprocessing''), p, pkg1)
      | (None, pkg1) \<Rightarrow> (None, set_Packages (AList.update (ID pkg1) pkg1 (Packages p)) p, pkg1))"

definition AddDependency :: "Package \<Rightarrow> Package \<Rightarrow> error option \<times> Package \<times> Package" where
  "AddDependency p pkg =
     (case preProcessSubPackage p pkg of
        (Some err, pkg1) \<Rightarrow> (Some (Wrap err ''performing subpackage preprocessing''), p, pkg1)
      | (None, pkg1) \<Rightarrow>
          (None, set_Dependencies (AList.update (ID pkg1) pkg1 (Dependencies p)) p, pkg1))"

subsection \<open>Render\<close>

text \<open>
  Executing \<open>packageTemplate\<close> on a package. \<open>{{ if .X }}\<close> on a string, slice or map
  tests for non-emptiness; a trim marker \<open>-}}\<close> removes the newline after an \<open>end\<close>;
  \<open>range\<close> over the map \<open>Checksum\<close> visits the keys in sorted order with the dot set to
  the value; a \<open>bool\<close> prints as \<open>true\<close> or \<open>false\<close>. Every printed value goes through
  \<^const>\<open>htmlEscape\<close>. The template is a constant that parses, and executing it on a
  \<open>Package\<close> cannot fail, so the two error returns around it have no counterpart.
\<close>

definition valueOr :: "string \<Rightarrow> string \<Rightarrow> string" where
  "valueOr v sentinel = (if v \<noteq> '''' then htmlEscape v else sentinel)"

definition optLine :: "string \<Rightarrow> string \<Rightarrow> string" where
  "optLine label v = (if v \<noteq> '''' then label @ htmlEscape v @ ''\<newline>'' else '''')"

definition checksumLine :: "string \<times> string \<Rightarrow> string" where
  "checksumLine kv =
     (if snd kv \<noteq> '''' then
        ''PackageChecksum: '' @ htmlEscape (fst kv) @ '': '' @ htmlEscape (snd kv) @ ''\<newline>''
      else '''')"

definition licenseInfoLine :: "string \<Rightarrow> string" where
  "licenseInfoLine v = ''PackageLicenseInfoFromFiles: '' @ htmlEscape v @ ''\<newline>''"

definition execTemplate :: "Package \<Rightarrow> string" where
  "execTemplate p =
     ''##### Package: '' @ htmlEscape (Name p) @ ''\<newline>\<newline>''
     @ optLine ''PackageName: '' (Name p)
     @ optLine ''SPDXID: '' (ID p)
     @ concat (map checksumLine (sort_key fst (Checksum p)))
     @ ''PackageDownloadLocation: '' @ valueOr (DownloadLocation p) ''NONE'' @ ''\<newline>''
     @ ''FilesAnalyzed: '' @ (if FilesAnalyzed p then ''true'' else ''false'') @ ''\<newline>''
     @ optLine ''PackageVerificationCode: '' (VerificationCode p)
     @ ''PackageLicenseConcluded: '' @ valueOr (LicenseConcluded p) ''NOASSERTION''
     @ ''\<newline>''
     @ optLine ''PackageFileName: '' (FileName p)
     @ concat (map licenseInfoLine (LicenseInfoFromFiles p))
     @ optLine ''PackageVersion: '' (Version p)
     @ ''PackageLicenseDeclared: '' @ valueOr (LicenseDeclared p) ''NOASSERTION''
     @ ''\<newline>''
     @ ''PackageCopyrightText: ''
     @ (if CopyrightText p \<noteq> '''' then
          ''<text>'' @ htmlEscape (CopyrightText p) @ ''\<newline></text>''
        else ''NOASSERTION'')
     @ ''\<newline>\<newline>''"

text \<open>
  The first loop of \<open>Render\<close> (over \<open>p.Files\<close>): it collects the SHA1 values and the
  distinct non-empty license tags in the order met, and returns at the first file
  without checksums or without a SHA1 entry.
\<close>

fun Render_collect ::
  "(string \<times> File) list \<Rightarrow> string list \<Rightarrow> string list \<Rightarrow> error + (string list \<times> string list)"
where
  "Render_collect [] shaList filesTagList = Inr (shaList, filesTagList)"
| "Render_collect ((k, f) # fs) shaList filesTagList =
     (case Checksum_F f of
        None \<Rightarrow> Inl ''unable to render package, file has no checksums''
      | Some cs \<Rightarrow>
         (case cs ''SHA1'' of
            None \<Rightarrow>
              Inl ''unable to render package, files were analyzed but some do not have sha1 checksum''
          | Some sha \<Rightarrow>
              Render_collect fs (shaList @ [sha])
                (if LicenseInfoInFile f \<noteq> '''' \<and> LicenseInfoInFile f \<notin> set filesTagList
                 then filesTagList @ [LicenseInfoInFile f] else filesTagList)))"

text \<open>
  The block guarded by \<open>p.FilesAnalyzed\<close>: the error it returns with, or the package
  with \<open>VerificationCode\<close> assigned and the tags appended to \<open>LicenseInfoFromFiles\<close>.
\<close>

definition Render_verify :: "Package \<Rightarrow> error + Package" where
  "Render_verify p =
     (if FilesAnalyzed p then
        if length (Files p) = 0 then
          Inl ''unable to get package verification code, package has no files''
        else
          (case Render_collect (Files p) [] [] of
             Inl err \<Rightarrow> Inl err
           | Inr (shaList, filesTagList) \<Rightarrow>
               Inr (set_LicenseInfoFromFiles
                      (LicenseInfoFromFiles p
                         @ filter (\<lambda>tag. tag \<noteq> NONE \<and> tag \<noteq> NOASSERTION) filesTagList
                         @ (if length filesTagList = 0 then [NONE] else []))
                      (set_VerificationCode (sha1hex (concat (sort shaList))) p)))
      else Inr p)"

text \<open>
  The loop over the files after the template has run. \<open>File.Render\<close> is declared
  outside package.go and is the parameter \<open>fr\<close>: a function of the file that returns
  the file's fragment and error and leaves the file as it is.
\<close>

fun Render_files ::
  "(File \<Rightarrow> string \<times> error option) \<Rightarrow> string \<Rightarrow> (string \<times> File) list \<Rightarrow> string
     \<Rightarrow> string \<times> error option"
where
  "Render_files fr pid [] docFragment = (docFragment, None)"
| "Render_files fr pid ((k, f) # fs) docFragment =
     (case fr f of
        (fileFragment, Some err) \<Rightarrow> ('''', Some (Wrap err (''rendering file '' @ Name_F f)))
      | (fileFragment, None) \<Rightarrow>
          Render_files fr pid fs
            (docFragment @ fileFragment
               @ ''Relationship: '' @ pid @ '' CONTAINS '' @ ID_F f @ ''\<newline>\<newline>''))"

text \<open>
  \<open>Render\<close> returns the fragment and the error, and the package as the call leaves it
  (also when it fails half-way). \<open>Render_pkgs\<close> is the loop over \<open>p.Packages\<close> and over
  \<open>p.Dependencies\<close>, which differ in the relationship word only.
\<close>

function Render :: "(File \<Rightarrow> string \<times> error option) \<Rightarrow> Package
                      \<Rightarrow> (string \<times> error option) \<times> Package"
  and Render_pkgs :: "(File \<Rightarrow> string \<times> error option) \<Rightarrow> string \<Rightarrow> string
                      \<Rightarrow> (string \<times> Package) list \<Rightarrow> string
                      \<Rightarrow> (string \<times> error option) \<times> (string \<times> Package) list"
where
  "Render fr p =
     (case Render_verify p of
        Inl err \<Rightarrow> (('''', Some err), p)
      | Inr p1 \<Rightarrow>
         (case Render_files fr (ID p1) (Files p1) (execTemplate p1) of
            (d1, Some err) \<Rightarrow> ((d1, Some err), p1)
          | (d1, None) \<Rightarrow>
             (case Render_pkgs fr (ID p1) ''CONTAINS'' (Packages p1) d1 of
                ((d2, Some err), ps) \<Rightarrow> ((d2, Some err), set_Packages ps p1)
              | ((d2, None), ps) \<Rightarrow>
                 (case Render_pkgs fr (ID p1) ''DEPENDS_ON'' (Dependencies p1) d2 of
                    (r, ds) \<Rightarrow> (r, set_Dependencies ds (set_Packages ps p1))))))"
| "Render_pkgs fr pid rel [] docFragment = ((docFragment, None), [])"
| "Render_pkgs fr pid rel ((k, pkg) # rest) docFragment =
     (case Render fr pkg of
        ((pkgDoc, Some err), pkg1) \<Rightarrow>
          (('''', Some (Wrap err (''rendering pkg '' @ Name pkg1))), (k, pkg1) # rest)
      | ((pkgDoc, None), pkg1) \<Rightarrow>
          (case Render_pkgs fr pid rel rest
                  (docFragment @ pkgDoc
                     @ ''Relationship: '' @ pid @ '' '' @ rel @ '' '' @ ID pkg1
                     @ ''\<newline>\<newline>'') of
             (r, rest1) \<Rightarrow> (r, (k, pkg1) # rest1)))"
  by pat_completeness auto
termination
  apply (relation "measure (\<lambda>x. case x of
          Inl (fr, p) \<Rightarrow> size p
        | Inr (fr, pid, rel, ps, d) \<Rightarrow> size_list (size_prod (\<lambda>_. 0) size) ps)")
  subgoal by simp
  subgoal for fr p p1
    by (cases p) (auto simp: Render_verify_def split: if_splits sum.splits)
  subgoal for fr p p1
    by (cases p) (auto simp: Render_verify_def split: if_splits sum.splits)
  subgoal by simp
  subgoal by simp
  done

section \<open>Notions used to state the properties\<close>

text \<open>The SHA1 entry of a file, if it has checksums and a SHA1 entry among them.\<close>

definition fileSHA1 :: "File \<Rightarrow> string option" where
  "fileSHA1 f = (case Checksum_F f of None \<Rightarrow> None | Some cs \<Rightarrow> cs ''SHA1'')"

text \<open>
  The explicit or derived ID of a package that is being attached: its own ID, or
  \<open>SPDXRef-Package-\<close> and the valid characters of its name when there are any.
\<close>

definition subPackageID :: "Package \<Rightarrow> string option" where
  "subPackageID pkg =
     (if ID pkg \<noteq> '''' then Some (ID pkg)
      else if filter validNameChar (Name pkg) \<noteq> '''' then
        Some (''SPDXRef-Package-'' @ filter validNameChar (Name pkg))
      else None)"

text \<open>A caller attaching a list of files one after the other, stopping at the first error.\<close>

fun AddFiles :: "Package \<Rightarrow> File list \<Rightarrow> error option \<times> Package" where
  "AddFiles p [] = (None, p)"
| "AddFiles p (file # files) =
     (case AddFile p file of
        (Some err, p1, file1) \<Rightarrow> (Some err, p1)
      | (None, p1, file1) \<Rightarrow> AddFiles p1 files)"

text \<open>The ID under which \<open>AddFile\<close> stores a file in a package.\<close>

definition storedID :: "Package \<Rightarrow> File \<Rightarrow> string" where
  "storedID p file = ID_F (snd (snd (AddFile p file)))"

text \<open>
  The values that \<open>packageTemplate\<close> prints for a package: the scalar fields it
  mentions, the entries of \<open>LicenseInfoFromFiles\<close>, and the keys and values of the
  checksums whose value is not empty.
\<close>

definition printedValues :: "Package \<Rightarrow> string list" where
  "printedValues p =
     [Name p, ID p, DownloadLocation p, VerificationCode p, LicenseConcluded p, FileName p,
      Version p, LicenseDeclared p, CopyrightText p]
     @ LicenseInfoFromFiles p
     @ concat (map (\<lambda>kv. if snd kv \<noteq> [] then [fst kv, snd kv] else []) (Checksum p))"

text \<open>
  A piece of template output that is empty or ends its line: what the template prints
  before a label is made of such pieces.
\<close>

definition ends_line :: "string \<Rightarrow> bool" where
  "ends_line s \<longleftrightarrow> s = [] \<or> last s = CHR ''\<newline>''"

text \<open>
  The IDs in a package tree: of the package, of its files, and of its sub-packages and
  dependencies, in depth.
\<close>

fun allIDs :: "Package \<Rightarrow> string list" where
  "allIDs (Package fa nm i dl vc lc lf ld lm ct ve fn sf su og ps fs cs ds op) =
     i # map (\<lambda>kf. ID_F (snd kf)) fs
       @ concat (map (\<lambda>kp. allIDs (snd kp)) ps)
       @ concat (map (\<lambda>kp. allIDs (snd kp)) ds)"

section \<open>Example values\<close>

text \<open>The package and the file of the end-to-end example of the specification.\<close>

definition hello :: Package where
  "hello =
     Package True ''hello'' '''' '''' '''' '''' [] '''' '''' '''' '''' '''' ''''
       \<lparr>Person = '''', Organization = ''''\<rparr> \<lparr>Person = '''', Organization = ''''\<rparr>
       [] [] [] [] (Some \<lparr>WorkDir = ''''\<rparr>)"

definition main_c :: File where
  "main_c =
     \<lparr>ID_F = '''', Name_F = ''main.c'',
      Checksum_F = Some [''SHA1'' \<mapsto> ''aaaaaaaaaaaaaaaaaaaaaaaaaaaaaaaaaaaaaaaa''],
      LicenseInfoInFile = ''''\<rparr>"

text \<open>A file renderer that always succeeds, for the examples.\<close>

definition nameOnly :: "File \<Rightarrow> string \<times> error option" where
  "nameOnly f = (''FileName: '' @ Name_F f @ ''\<newline>'', None)"

text \<open>A package to attach, with a name that holds characters to strip.\<close>

definition libfoo :: Package where
  "libfoo =
     Package False ''lib foo_1.2-rc'' '''' '''' '''' '''' [] '''' '''' '''' '''' '''' ''''
       \<lparr>Person = '''', Organization = ''''\<rparr> \<lparr>Person = '''', Organization = ''''\<rparr>
       [] [] [] [] (Some \<lparr>WorkDir = ''''\<rparr>)"

text \<open>A package with two files, stored with the larger SHA1 value first.\<close>

definition two_files :: Package where
  "two_files =
     Package True ''two'' ''SPDXRef-Package-two'' '''' '''' '''' [] '''' '''' '''' '''' '''' ''''
       \<lparr>Person = '''', Organization = ''''\<rparr> \<lparr>Person = '''', Organization = ''''\<rparr>
       []
       [(''SPDXRef-File-b'', \<lparr>ID_F = ''SPDXRef-File-b'', Name_F = ''b.c'',
            Checksum_F = Some [''SHA1'' \<mapsto> ''bbbbbbbbbbbbbbbbbbbbbbbbbbbbbbbbbbbbbbbb''],
            LicenseInfoInFile = ''MIT''\<rparr>),
        (''SPDXRef-File-a'', \<lparr>ID_F = ''SPDXRef-File-a'', Name_F = ''a.c'',
            Checksum_F = Some [''SHA1'' \<mapsto> ''aaaaaaaaaaaaaaaaaaaaaaaaaaaaaaaaaaaaaaaa''],
            LicenseInfoInFile = ''''\<rparr>)]
       [] [] (Some \<lparr>WorkDir = ''''\<rparr>)"

text \<open>Two files with IDs of their own.\<close>

definition file_a :: File where
  "file_a =
     \<lparr>ID_F = ''SPDXRef-File-a'', Name_F = ''a.c'',
      Checksum_F = Some [''SHA1'' \<mapsto> ''aaaaaaaaaaaaaaaaaaaaaaaaaaaaaaaaaaaaaaaa''],
      LicenseInfoInFile = ''''\<rparr>"

definition file_b :: File where
  "file_b =
     \<lparr>ID_F = ''SPDXRef-File-b'', Name_F = ''b.c'',
      Checksum_F = Some [''SHA1'' \<mapsto> ''bbbbbbbbbbbbbbbbbbbbbbbbbbbbbbbbbbbbbbbb''],
      LicenseInfoInFile = ''MIT''\<rparr>"

text \<open>A package whose only file has no checksums at all.\<close>

definition no_sums :: Package where
  "no_sums =
     Package True ''broken'' ''SPDXRef-Package-broken'' '''' '''' '''' [] '''' '''' '''' '''' '''' ''''
       \<lparr>Person = '''', Organization = ''''\<rparr> \<lparr>Person = '''', Organization = ''''\<rparr>
       []
       [(''SPDXRef-File-main'', \<lparr>ID_F = ''SPDXRef-File-main'', Name_F = ''main.c'',
            Checksum_F = None, LicenseInfoInFile = ''''\<rparr>)]
       [] [] (Some \<lparr>WorkDir = ''''\<rparr>)"

text \<open>A parent that already has \<open>libfoo\<close> under its derived ID, as a dependency.\<close>

definition with_dep :: Package where
  "with_dep =
     Package False ''app'' ''SPDXRef-Package-app'' '''' '''' '''' [] '''' '''' '''' '''' '''' ''''
       \<lparr>Person = '''', Organization = ''''\<rparr> \<lparr>Person = '''', Organization = ''''\<rparr>
       [] [] []
       [(''SPDXRef-Package-libfoo1.2-rc'', set_ID ''SPDXRef-Package-libfoo1.2-rc'' libfoo)]
       (Some \<lparr>WorkDir = ''''\<rparr>)"

text \<open>A package with files analyzed, whose only file carries no license tag.\<close>

definition two_plain :: Package where
  "two_plain =
     Package True ''plain'' ''SPDXRef-Package-plain'' '''' '''' '''' [] '''' '''' '''' '''' '''' ''''
       \<lparr>Person = '''', Organization = ''''\<rparr> \<lparr>Person = '''', Organization = ''''\<rparr>
       [] [(''SPDXRef-File-a'', file_a)] [] [] (Some \<lparr>WorkDir = ''''\<rparr>)"

text \<open>
  The package \<open>hello\<close> with ID \<open>i\<close> and the file \<open>main.c\<close> attached, holding the
  \<open>LicenseInfoFromFiles\<close> and \<open>VerificationCode\<close> that the caller or an earlier
  \<open>Render\<close> left in it.
\<close>

definition hello_main :: "string \<Rightarrow> string list \<Rightarrow> string \<Rightarrow> Package" where
  "hello_main i tags vc =
     set_LicenseInfoFromFiles tags
       (set_VerificationCode vc (fst (snd (AddFile (set_ID i hello) main_c))))"

text \<open>A disk with one file, and packages whose working directory is or is not above it.\<close>

definition disk_exists :: "string \<Rightarrow> bool" where
  "disk_exists path = (path = ''/src/out/pkg.tar'')"

definition disk_sha256 :: "string \<Rightarrow> error + string" where
  "disk_sha256 path =
     (if path = ''/src/out/pkg.tar'' then Inr ''2c26b46b'' else Inl ''no such file'')"

definition disk_sha512 :: "string \<Rightarrow> error + string" where
  "disk_sha512 path =
     (if path = ''/src/out/pkg.tar'' then Inr ''f7fbba6e'' else Inl ''no such file'')"

definition in_src :: Package where
  "in_src =
     Package False ''pkg'' '''' '''' '''' '''' [] '''' '''' '''' '''' '''' ''''
       \<lparr>Person = '''', Organization = ''''\<rparr> \<lparr>Person = '''', Organization = ''''\<rparr>
       [] [] [] [] (Some \<lparr>WorkDir = ''/src''\<rparr>)"

definition in_tmp :: Package where
  "in_tmp =
     Package False ''pkg'' '''' '''' '''' '''' [] '''' '''' '''' '''' '''' ''''
       \<lparr>Person = '''', Organization = ''''\<rparr> \<lparr>Person = '''', Organization = ''''\<rparr>
       [] [] [] [] (Some \<lparr>WorkDir = ''/tmp''\<rparr>)"

text \<open>A package whose name holds an HTML-special character.\<close>

definition lt_name :: Package where
  "lt_name =
     Package False ''a<b'' '''' '''' '''' '''' [] '''' '''' '''' '''' '''' ''''
       \<lparr>Person = '''', Organization = ''''\<rparr> \<lparr>Person = '''', Organization = ''''\<rparr>
       [] [] [] [] (Some \<lparr>WorkDir = ''''\<rparr>)"

text \<open>Two files of the same name and without an ID, with different SHA1 values.\<close>

definition dup_a :: File where
  "dup_a =
     \<lparr>ID_F = '''', Name_F = ''a.c'',
      Checksum_F = Some [''SHA1'' \<mapsto> ''aaaaaaaaaaaaaaaaaaaaaaaaaaaaaaaaaaaaaaaa''],
      LicenseInfoInFile = ''''\<rparr>"

definition dup_b :: File where
  "dup_b =
     \<lparr>ID_F = '''', Name_F = ''a.c'',
      Checksum_F = Some [''SHA1'' \<mapsto> ''bbbbbbbbbbbbbbbbbbbbbbbbbbbbbbbbbbbbbbbb''],
      LicenseInfoInFile = ''''\<rparr>"

section \<open>Basic facts\<close>

text \<open>An assignment to a field changes that field and no other.\<close>

lemma set_ID_sel [simp]:
  "FilesAnalyzed (set_ID v p) = FilesAnalyzed p"
  "Name (set_ID v p) = Name p"
  "ID (set_ID v p) = v"
  "DownloadLocation (set_ID v p) = DownloadLocation p"
  "VerificationCode (set_ID v p) = VerificationCode p"
  "LicenseConcluded (set_ID v p) = LicenseConcluded p"
  "LicenseInfoFromFiles (set_ID v p) = LicenseInfoFromFiles p"
  "LicenseDeclared (set_ID v p) = LicenseDeclared p"
  "LicenseComments (set_ID v p) = LicenseComments p"
  "CopyrightText (set_ID v p) = CopyrightText p"
  "Version (set_ID v p) = Version p"
  "FileName (set_ID v p) = FileName p"
  "SourceFile (set_ID v p) = SourceFile p"
  "Supplier (set_ID v p) = Supplier p"
  "Originator (set_ID v p) = Originator p"
  "Packages (set_ID v p) = Packages p"
  "Files (set_ID v p) = Files p"
  "Checksum (set_ID v p) = Checksum p"
  "Dependencies (set_ID v p) = Dependencies p"
  "options (set_ID v p) = options p"
  by (cases p; simp)+

lemma set_VerificationCode_sel [simp]:
  "FilesAnalyzed (set_VerificationCode v p) = FilesAnalyzed p"
  "Name (set_VerificationCode v p) = Name p"
  "ID (set_VerificationCode v p) = ID p"
  "DownloadLocation (set_VerificationCode v p) = DownloadLocation p"
  "VerificationCode (set_VerificationCode v p) = v"
  "LicenseConcluded (set_VerificationCode v p) = LicenseConcluded p"
  "LicenseInfoFromFiles (set_VerificationCode v p) = LicenseInfoFromFiles p"
  "LicenseDeclared (set_VerificationCode v p) = LicenseDeclared p"
  "LicenseComments (set_VerificationCode v p) = LicenseComments p"
  "CopyrightText (set_VerificationCode v p) = CopyrightText p"
  "Version (set_VerificationCode v p) = Version p"
  "FileName (set_VerificationCode v p) = FileName p"
  "SourceFile (set_VerificationCode v p) = SourceFile p"
  "Supplier (set_VerificationCode v p) = Supplier p"
  "Originator (set_VerificationCode v p) = Originator p"
  "Packages (set_VerificationCode v p) = Packages p"
  "Files (set_VerificationCode v p) = Files p"
  "Checksum (set_VerificationCode v p) = Checksum p"
  "Dependencies (set_VerificationCode v p) = Dependencies p"
  "options (set_VerificationCode v p) = options p"
  by (cases p; simp)+

lemma set_LicenseInfoFromFiles_sel [simp]:
  "FilesAnalyzed (set_LicenseInfoFromFiles v p) = FilesAnalyzed p"
  "Name (set_LicenseInfoFromFiles v p) = Name p"
  "ID (set_LicenseInfoFromFiles v p) = ID p"
  "DownloadLocation (set_LicenseInfoFromFiles v p) = DownloadLocation p"
  "VerificationCode (set_LicenseInfoFromFiles v p) = VerificationCode p"
  "LicenseConcluded (set_LicenseInfoFromFiles v p) = LicenseConcluded p"
  "LicenseInfoFromFiles (set_LicenseInfoFromFiles v p) = v"
  "LicenseDeclared (set_LicenseInfoFromFiles v p) = LicenseDeclared p"
  "LicenseComments (set_LicenseInfoFromFiles v p) = LicenseComments p"
  "CopyrightText (set_LicenseInfoFromFiles v p) = CopyrightText p"
  "Version (set_LicenseInfoFromFiles v p) = Version p"
  "FileName (set_LicenseInfoFromFiles v p) = FileName p"
  "SourceFile (set_LicenseInfoFromFiles v p) = SourceFile p"
  "Supplier (set_LicenseInfoFromFiles v p) = Supplier p"
  "Originator (set_LicenseInfoFromFiles v p) = Originator p"
  "Packages (set_LicenseInfoFromFiles v p) = Packages p"
  "Files (set_LicenseInfoFromFiles v p) = Files p"
  "Checksum (set_LicenseInfoFromFiles v p) = Checksum p"
  "Dependencies (set_LicenseInfoFromFiles v p) = Dependencies p"
  "options (set_LicenseInfoFromFiles v p) = options p"
  by (cases p; simp)+

lemma set_FileName_sel [simp]:
  "FilesAnalyzed (set_FileName v p) = FilesAnalyzed p"
  "Name (set_FileName v p) = Name p"
  "ID (set_FileName v p) = ID p"
  "DownloadLocation (set_FileName v p) = DownloadLocation p"
  "VerificationCode (set_FileName v p) = VerificationCode p"
  "LicenseConcluded (set_FileName v p) = LicenseConcluded p"
  "LicenseInfoFromFiles (set_FileName v p) = LicenseInfoFromFiles p"
  "LicenseDeclared (set_FileName v p) = LicenseDeclared p"
  "LicenseComments (set_FileName v p) = LicenseComments p"
  "CopyrightText (set_FileName v p) = CopyrightText p"
  "Version (set_FileName v p) = Version p"
  "FileName (set_FileName v p) = v"
  "SourceFile (set_FileName v p) = SourceFile p"
  "Supplier (set_FileName v p) = Supplier p"
  "Originator (set_FileName v p) = Originator p"
  "Packages (set_FileName v p) = Packages p"
  "Files (set_FileName v p) = Files p"
  "Checksum (set_FileName v p) = Checksum p"
  "Dependencies (set_FileName v p) = Dependencies p"
  "options (set_FileName v p) = options p"
  by (cases p; simp)+

lemma set_SourceFile_sel [simp]:
  "FilesAnalyzed (set_SourceFile v p) = FilesAnalyzed p"
  "Name (set_SourceFile v p) = Name p"
  "ID (set_SourceFile v p) = ID p"
  "DownloadLocation (set_SourceFile v p) = DownloadLocation p"
  "VerificationCode (set_SourceFile v p) = VerificationCode p"
  "LicenseConcluded (set_SourceFile v p) = LicenseConcluded p"
  "LicenseInfoFromFiles (set_SourceFile v p) = LicenseInfoFromFiles p"
  "LicenseDeclared (set_SourceFile v p) = LicenseDeclared p"
  "LicenseComments (set_SourceFile v p) = LicenseComments p"
  "CopyrightText (set_SourceFile v p) = CopyrightText p"
  "Version (set_SourceFile v p) = Version p"
  "FileName (set_SourceFile v p) = FileName p"
  "SourceFile (set_SourceFile v p) = v"
  "Supplier (set_SourceFile v p) = Supplier p"
  "Originator (set_SourceFile v p) = Originator p"
  "Packages (set_SourceFile v p) = Packages p"
  "Files (set_SourceFile v p) = Files p"
  "Checksum (set_SourceFile v p) = Checksum p"
  "Dependencies (set_SourceFile v p) = Dependencies p"
  "options (set_SourceFile v p) = options p"
  by (cases p; simp)+

lemma set_Packages_sel [simp]:
  "FilesAnalyzed (set_Packages v p) = FilesAnalyzed p"
  "Name (set_Packages v p) = Name p"
  "ID (set_Packages v p) = ID p"
  "DownloadLocation (set_Packages v p) = DownloadLocation p"
  "VerificationCode (set_Packages v p) = VerificationCode p"
  "LicenseConcluded (set_Packages v p) = LicenseConcluded p"
  "LicenseInfoFromFiles (set_Packages v p) = LicenseInfoFromFiles p"
  "LicenseDeclared (set_Packages v p) = LicenseDeclared p"
  "LicenseComments (set_Packages v p) = LicenseComments p"
  "CopyrightText (set_Packages v p) = CopyrightText p"
  "Version (set_Packages v p) = Version p"
  "FileName (set_Packages v p) = FileName p"
  "SourceFile (set_Packages v p) = SourceFile p"
  "Supplier (set_Packages v p) = Supplier p"
  "Originator (set_Packages v p) = Originator p"
  "Packages (set_Packages v p) = v"
  "Files (set_Packages v p) = Files p"
  "Checksum (set_Packages v p) = Checksum p"
  "Dependencies (set_Packages v p) = Dependencies p"
  "options (set_Packages v p) = options p"
  by (cases p; simp)+

lemma set_Files_sel [simp]:
  "FilesAnalyzed (set_Files v p) = FilesAnalyzed p"
  "Name (set_Files v p) = Name p"
  "ID (set_Files v p) = ID p"
  "DownloadLocation (set_Files v p) = DownloadLocation p"
  "VerificationCode (set_Files v p) = VerificationCode p"
  "LicenseConcluded (set_Files v p) = LicenseConcluded p"
  "LicenseInfoFromFiles (set_Files v p) = LicenseInfoFromFiles p"
  "LicenseDeclared (set_Files v p) = LicenseDeclared p"
  "LicenseComments (set_Files v p) = LicenseComments p"
  "CopyrightText (set_Files v p) = CopyrightText p"
  "Version (set_Files v p) = Version p"
  "FileName (set_Files v p) = FileName p"
  "SourceFile (set_Files v p) = SourceFile p"
  "Supplier (set_Files v p) = Supplier p"
  "Originator (set_Files v p) = Originator p"
  "Packages (set_Files v p) = Packages p"
  "Files (set_Files v p) = v"
  "Checksum (set_Files v p) = Checksum p"
  "Dependencies (set_Files v p) = Dependencies p"
  "options (set_Files v p) = options p"
  by (cases p; simp)+

lemma set_Checksum_sel [simp]:
  "FilesAnalyzed (set_Checksum v p) = FilesAnalyzed p"
  "Name (set_Checksum v p) = Name p"
  "ID (set_Checksum v p) = ID p"
  "DownloadLocation (set_Checksum v p) = DownloadLocation p"
  "VerificationCode (set_Checksum v p) = VerificationCode p"
  "LicenseConcluded (set_Checksum v p) = LicenseConcluded p"
  "LicenseInfoFromFiles (set_Checksum v p) = LicenseInfoFromFiles p"
  "LicenseDeclared (set_Checksum v p) = LicenseDeclared p"
  "LicenseComments (set_Checksum v p) = LicenseComments p"
  "CopyrightText (set_Checksum v p) = CopyrightText p"
  "Version (set_Checksum v p) = Version p"
  "FileName (set_Checksum v p) = FileName p"
  "SourceFile (set_Checksum v p) = SourceFile p"
  "Supplier (set_Checksum v p) = Supplier p"
  "Originator (set_Checksum v p) = Originator p"
  "Packages (set_Checksum v p) = Packages p"
  "Files (set_Checksum v p) = Files p"
  "Checksum (set_Checksum v p) = v"
  "Dependencies (set_Checksum v p) = Dependencies p"
  "options (set_Checksum v p) = options p"
  by (cases p; simp)+

lemma set_Dependencies_sel [simp]:
  "FilesAnalyzed (set_Dependencies v p) = FilesAnalyzed p"
  "Name (set_Dependencies v p) = Name p"
  "ID (set_Dependencies v p) = ID p"
  "DownloadLocation (set_Dependencies v p) = DownloadLocation p"
  "VerificationCode (set_Dependencies v p) = VerificationCode p"
  "LicenseConcluded (set_Dependencies v p) = LicenseConcluded p"
  "LicenseInfoFromFiles (set_Dependencies v p) = LicenseInfoFromFiles p"
  "LicenseDeclared (set_Dependencies v p) = LicenseDeclared p"
  "LicenseComments (set_Dependencies v p) = LicenseComments p"
  "CopyrightText (set_Dependencies v p) = CopyrightText p"
  "Version (set_Dependencies v p) = Version p"
  "FileName (set_Dependencies v p) = FileName p"
  "SourceFile (set_Dependencies v p) = SourceFile p"
  "Supplier (set_Dependencies v p) = Supplier p"
  "Originator (set_Dependencies v p) = Originator p"
  "Packages (set_Dependencies v p) = Packages p"
  "Files (set_Dependencies v p) = Files p"
  "Checksum (set_Dependencies v p) = Checksum p"
  "Dependencies (set_Dependencies v p) = v"
  "options (set_Dependencies v p) = options p"
  by (cases p; simp)+

subsection \<open>Digests print as forty hex digits, which HTML escaping leaves alone\<close>

lemma length_sha1_Sum: "length (sha1_Sum m) = 20"
  by (simp add: sha1_Sum_def be_bytes32_def split: prod.splits)

lemma length_hex: "length (hex bs) = 2 * length bs"
  by (induction bs) (simp_all add: hex_def)

lemma length_sha1hex: "length (sha1hex s) = 40"
  by (simp add: sha1hex_def length_hex length_sha1_Sum)

lemma hexdigit_in: "n < 16 \<Longrightarrow> hexdigit n \<in> set ''0123456789abcdef''"
  unfolding hexdigit_def by (rule nth_mem) simp

lemma set_hex: "set (hex bs) \<subseteq> set ''0123456789abcdef''"
proof (induction bs)
  case Nil
  then show ?case by (simp add: hex_def)
next
  case (Cons b bs)
  have "unat b < 256" using unsigned_less [of b] by simp
  then have "unat b div 16 < 16" by simp
  with Cons hexdigit_in [of "unat b div 16"] hexdigit_in [of "unat b mod 16"]
  show ?case by (simp add: hex_def)
qed

lemma set_sha1hex: "set (sha1hex s) \<subseteq> set ''0123456789abcdef''"
  unfolding sha1hex_def by (rule set_hex)

lemma htmlEscape_plain:
  "set s \<inter> {CHR 0x00, CHR 0x22, CHR ''&'', CHR 0x27, CHR ''+'', CHR ''<'', CHR ''>''} = {}
     \<Longrightarrow> htmlEscape s = s"
  by (induction s) (auto simp: htmlEscape_def htmlEscapeChar_def)

lemma htmlEscape_sha1hex: "htmlEscape (sha1hex s) = sha1hex s"
  by (rule htmlEscape_plain) (use set_sha1hex [of s] in auto)

subsection \<open>The first loop of \<open>Render\<close>\<close>

declare Render.simps [simp del]

lemma Render_collect_sha:
  "map (fileSHA1 \<circ> snd) fs = map Some hs
     \<Longrightarrow> \<exists>tags1. Render_collect fs shaList tags = Inr (shaList @ hs, tags1)"
proof (induction fs arbitrary: shaList tags hs)
  case Nil
  then show ?case by simp
next
  case (Cons kf fs)
  obtain k f where kf: "kf = (k, f)" by (cases kf)
  from Cons.prems obtain h hs1 where hs: "hs = h # hs1" by (cases hs) auto
  from Cons.prems kf hs have h: "fileSHA1 f = Some h"
    and rest: "map (fileSHA1 \<circ> snd) fs = map Some hs1"
    by (simp_all add: comp_def)
  from h obtain cs where cs: "Checksum_F f = Some cs" "cs ''SHA1'' = Some h"
    by (auto simp: fileSHA1_def split: option.splits)
  have "\<And>t. \<exists>tags1. Render_collect fs (shaList @ [h]) t = Inr ((shaList @ [h]) @ hs1, tags1)"
    using Cons.IH [OF rest] by blast
  then show ?case
    by (simp add: kf hs cs)
qed

lemma Render_collect_isl:
  "isl (Render_collect fs shaList tags) \<longleftrightarrow> (\<exists>kf \<in> set fs. fileSHA1 (snd kf) = None)"
proof (induction fs arbitrary: shaList tags)
  case Nil
  then show ?case by simp
next
  case (Cons kf fs)
  obtain k f where kf: "kf = (k, f)" by (cases kf)
  show ?case
  proof (cases "fileSHA1 f")
    case None
    then have "isl (Render_collect ((k, f) # fs) shaList tags)"
      by (auto simp: fileSHA1_def split: option.splits)
    with None show ?thesis by (simp add: kf)
  next
    case (Some h)
    then obtain cs where cs: "Checksum_F f = Some cs" "cs ''SHA1'' = Some h"
      by (auto simp: fileSHA1_def split: option.splits)
    have "Render_collect ((k, f) # fs) shaList tags
        = Render_collect fs (shaList @ [h])
            (if LicenseInfoInFile f \<noteq> '''' \<and> LicenseInfoInFile f \<notin> set tags
             then tags @ [LicenseInfoInFile f] else tags)"
      by (simp add: cs)
    with Cons.IH Some show ?thesis by (simp add: kf)
  qed
qed

text \<open>The two messages the first loop can return with.\<close>

lemma Render_collect_errors:
  "Render_collect fs shaList tags = Inl e
     \<Longrightarrow> e = ''unable to render package, file has no checksums''
       \<or> e = ''unable to render package, files were analyzed but some do not have sha1 checksum''"
  by (induction fs shaList tags rule: Render_collect.induct)
     (auto split: option.splits if_splits)

subsection \<open>What a call of \<open>Render\<close> leaves in the package\<close>

lemma Render_verify_fail:
  "Render_verify p = Inl e \<Longrightarrow> Render fr p = (('''', Some e), p)"
  by (simp add: Render.simps)

lemma Render_state_scalars:
  assumes "Render_verify p = Inr p1"
  shows "VerificationCode (snd (Render fr p)) = VerificationCode p1"
    and "LicenseInfoFromFiles (snd (Render fr p)) = LicenseInfoFromFiles p1"
    and "ID (snd (Render fr p)) = ID p1"
    and "Files (snd (Render fr p)) = Files p1"
  using assms by (auto simp: Render.simps split: prod.splits option.splits)

lemma Render_sets_code:
  assumes "FilesAnalyzed p" and "Files p \<noteq> []"
    and "map (fileSHA1 \<circ> snd) (Files p) = map Some hs"
  shows "VerificationCode (snd (Render fr p)) = sha1hex (concat (sort hs))"
proof -
  from assms(3) obtain tags1 where "Render_collect (Files p) [] [] = Inr (hs, tags1)"
    using Render_collect_sha [of "Files p" hs "[]" "[]"] by auto
  with assms(1,2) obtain p1 where p1: "Render_verify p = Inr p1"
    and vc: "VerificationCode p1 = sha1hex (concat (sort hs))"
    by (simp add: Render_verify_def)
  from Render_state_scalars(1) [OF p1] vc show ?thesis by simp
qed

subsection \<open>Attaching files\<close>

lemma set_Files_idem [simp]: "set_Files a (set_Files b p) = set_Files a p"
  by (cases p) simp

lemma AddFile_package:
  "fst (snd (AddFile p file))
     = (if fst (AddFile p file) = None
        then set_Files (AList.update (storedID p file) (snd (snd (AddFile p file))) (Files p)) p
        else p)"
  by (simp add: AddFile_def storedID_def Let_def)

lemma AddFile_Name_only:
  assumes "Name q = Name p"
  shows "fst (AddFile q file) = fst (AddFile p file)"
    and "snd (snd (AddFile q file)) = snd (snd (AddFile p file))"
    and "storedID q file = storedID p file"
  using assms by (simp_all add: AddFile_def storedID_def Let_def)

lemma AddFiles_ok_iff:
  "fst (AddFiles p files) = None \<longleftrightarrow> (\<forall>file \<in> set files. fst (AddFile p file) = None)"
proof (induction files arbitrary: p)
  case Nil
  then show ?case by simp
next
  case (Cons "file" files)
  obtain e p1 file1 where r: "AddFile p file = (e, p1, file1)" by (cases "AddFile p file")
  show ?case
  proof (cases e)
    case (Some err)
    with r show ?thesis by simp
  next
    case None
    with r AddFile_package [of p "file"] have "Name p1 = Name p" by simp
    then have "\<And>g. fst (AddFile p1 g) = fst (AddFile p g)" by (rule AddFile_Name_only(1))
    with Cons.IH [of p1] r None show ?thesis by simp
  qed
qed

lemma AddFiles_result:
  "fst (AddFiles p files) = None \<Longrightarrow>
   snd (AddFiles p files)
     = set_Files (fold (\<lambda>file. AList.update (storedID p file) (snd (snd (AddFile p file))))
                    files (Files p)) p"
proof (induction files arbitrary: p)
  case Nil
  then show ?case by (cases p) simp
next
  case (Cons "file" files)
  obtain e p1 file1 where r: "AddFile p file = (e, p1, file1)" by (cases "AddFile p file")
  from Cons.prems r have e: "e = None" by (cases e) simp_all
  with r AddFile_package [of p "file"]
  have p1: "p1 = set_Files (AList.update (storedID p file) file1 (Files p)) p" by simp
  then have nm: "Name p1 = Name p" by simp
  have same: "(\<lambda>g. AList.update (storedID p1 g) (snd (snd (AddFile p1 g))))
      = (\<lambda>g. AList.update (storedID p g) (snd (snd (AddFile p g))))"
    using AddFile_Name_only(2,3) [OF nm] by simp
  from Cons.prems r e have ok: "fst (AddFiles p1 files) = None" by simp
  have "snd (AddFiles p (file # files)) = snd (AddFiles p1 files)"
    using r e by simp
  also have "\<dots> = set_Files (fold (\<lambda>g. AList.update (storedID p1 g) (snd (snd (AddFile p1 g))))
                          files (Files p1)) p1"
    by (rule Cons.IH [OF ok])
  also have "\<dots> = set_Files (fold (\<lambda>g. AList.update (storedID p g) (snd (snd (AddFile p g))))
                          files (Files p1)) p1"
    by (simp only: same)
  also have "\<dots> = set_Files (fold (\<lambda>g. AList.update (storedID p g) (snd (snd (AddFile p g))))
                          (file # files) (Files p)) p"
    using r by (simp add: p1)
  finally show ?case .
qed

subsection \<open>A fold of map updates under distinct keys does not depend on the order\<close>

lemma map_of_fold_update:
  "map_of (fold (\<lambda>x. AList.update (k x) (v x)) xs al)
     = fold (\<lambda>x m. m(k x \<mapsto> v x)) xs (map_of al)"
  by (induction xs arbitrary: al) (simp_all add: update_conv')

lemma distinct_fold_update:
  "distinct (map fst al) \<Longrightarrow> distinct (map fst (fold (\<lambda>x. AList.update (k x) (v x)) xs al))"
  by (induction xs arbitrary: al) (simp_all add: distinct_update)

lemma fold_fun_upd_permuted:
  assumes "mset xs = mset ys" and "distinct (map k xs)"
  shows "fold (\<lambda>x m. m(k x \<mapsto> v x)) xs = fold (\<lambda>x m. m(k x \<mapsto> v x)) ys"
proof (rule fold_multiset_equiv [OF _ assms(1)])
  fix x y
  assume "x \<in> set xs" and "y \<in> set xs"
  with assms(2) have "x = y \<or> k x \<noteq> k y"
    by (auto simp: distinct_map dest: inj_onD)
  then show "(\<lambda>m. m(k x \<mapsto> v x)) \<circ> (\<lambda>m. m(k y \<mapsto> v y))
           = (\<lambda>m. m(k y \<mapsto> v y)) \<circ> (\<lambda>m. m(k x \<mapsto> v x))"
    by (auto simp: fun_eq_iff)
qed

lemma mset_fold_update_permuted:
  assumes "mset xs = mset ys" and "distinct (map k xs)" and "distinct (map fst al)"
  shows "mset (fold (\<lambda>x. AList.update (k x) (v x)) xs al)
       = mset (fold (\<lambda>x. AList.update (k x) (v x)) ys al)"
proof -
  let ?a = "fold (\<lambda>x. AList.update (k x) (v x)) xs al"
  let ?b = "fold (\<lambda>x. AList.update (k x) (v x)) ys al"
  have da: "distinct (map fst ?a)" and db: "distinct (map fst ?b)"
    using assms(3) by (simp_all add: distinct_fold_update)
  have "map_of ?a = map_of ?b"
    using fold_fun_upd_permuted [OF assms(1,2), of v] by (simp add: map_of_fold_update)
  with da db have "set ?a = set ?b" by (simp add: map_of_inject_set)
  moreover from da db have "distinct ?a" and "distinct ?b"
    by (auto simp: distinct_map)
  ultimately show ?thesis by (simp add: set_eq_iff_mset_eq_distinct)
qed

subsection \<open>The verification block sees the files as a multiset\<close>

lemma Render_collect_value:
  assumes "\<not> isl (Render_collect fs [] [])"
  shows "fst (projr (Render_collect fs [] [])) = map (the \<circ> fileSHA1 \<circ> snd) fs"
proof -
  from assms have "\<forall>kf \<in> set fs. fileSHA1 (snd kf) \<noteq> None"
    by (simp add: Render_collect_isl)
  then have "map (fileSHA1 \<circ> snd) fs = map Some (map (the \<circ> fileSHA1 \<circ> snd) fs)"
    by (induction fs) auto
  from Render_collect_sha [OF this, of "[]" "[]"] show ?thesis by auto
qed

lemma Render_verify_mset:
  assumes "set_Files [] p = set_Files [] q" and "mset (Files p) = mset (Files q)"
  shows "isl (Render_verify p) = isl (Render_verify q)"
    and "VerificationCode (snd (Render fr p)) = VerificationCode (snd (Render fr q))"
proof -
  from assms(1) have fa: "FilesAnalyzed p = FilesAnalyzed q"
    and vc: "VerificationCode p = VerificationCode q"
    by (cases p; cases q; simp)+
  from assms(2) have st: "set (Files p) = set (Files q)" by (rule mset_eq_setD)
  from assms(2) have len: "length (Files p) = length (Files q)" by (rule mset_eq_length)
  have isl: "isl (Render_collect (Files p) [] []) = isl (Render_collect (Files q) [] [])"
    by (simp add: Render_collect_isl st)
  show 1: "isl (Render_verify p) = isl (Render_verify q)"
    using fa len isl by (auto simp: Render_verify_def split: sum.splits prod.splits)
  show "VerificationCode (snd (Render fr p)) = VerificationCode (snd (Render fr q))"
  proof (cases "Render_verify p")
    case (Inl e)
    with 1 obtain e' where "Render_verify q = Inl e'" by (cases "Render_verify q") auto
    with Inl vc show ?thesis by (simp add: Render_verify_fail)
  next
    case (Inr p1)
    with 1 obtain q1 where q1: "Render_verify q = Inr q1" by (cases "Render_verify q") auto
    have "VerificationCode p1 = VerificationCode q1"
    proof (cases "FilesAnalyzed p")
      case False
      with Inr q1 fa vc show ?thesis by (simp add: Render_verify_def)
    next
      case True
      with Inr have np: "\<not> isl (Render_collect (Files p) [] [])"
        by (auto simp: Render_verify_def split: if_splits sum.splits)
      with isl have nq: "\<not> isl (Render_collect (Files q) [] [])" by simp
      have "mset (map (the \<circ> fileSHA1 \<circ> snd) (Files p))
          = mset (map (the \<circ> fileSHA1 \<circ> snd) (Files q))"
        using assms(2) by simp
      then have "sort (map (the \<circ> fileSHA1 \<circ> snd) (Files p))
          = sort (map (the \<circ> fileSHA1 \<circ> snd) (Files q))"
        by (metis sorted_list_of_multiset_mset)
      with Render_collect_value [OF np] Render_collect_value [OF nq] Inr q1 True fa
      show ?thesis
        by (auto simp: Render_verify_def split: if_splits sum.splits prod.splits)
    qed
    with Render_state_scalars(1) [OF Inr] Render_state_scalars(1) [OF q1]
    show ?thesis by simp
  qed
qed

subsection \<open>Files attached to a package that had none\<close>

lemma update_fresh: "k \<notin> fst ` set al \<Longrightarrow> AList.update k v al = al @ [(k, v)]"
  by (induction al) auto

lemma fold_update_fresh:
  "distinct (map k xs) \<Longrightarrow> k ` set xs \<inter> fst ` set al = {} \<Longrightarrow>
   fold (\<lambda>x. AList.update (k x) (v x)) xs al = al @ map (\<lambda>x. (k x, v x)) xs"
proof (induction xs arbitrary: al)
  case Nil
  then show ?case by simp
next
  case (Cons x xs)
  from Cons.prems(2) have fresh: "k x \<notin> fst ` set al" by auto
  have "k ` set xs \<inter> fst ` set (al @ [(k x, v x)]) = {}"
    using Cons.prems by auto
  with Cons.IH [of "al @ [(k x, v x)]"] Cons.prems(1)
  have "fold (\<lambda>x. AList.update (k x) (v x)) xs (al @ [(k x, v x)])
      = (al @ [(k x, v x)]) @ map (\<lambda>x. (k x, v x)) xs"
    by simp
  then show ?case by (simp add: update_fresh [OF fresh])
qed

lemma AddFile_keeps_SHA1: "fileSHA1 (snd (snd (AddFile p f))) = fileSHA1 f"
  by (simp add: AddFile_def fileSHA1_def Let_def)

lemma AddFiles_fresh:
  assumes "fst (AddFiles p files) = None" and "Files p = []"
    and "distinct (map (storedID p) files)"
  shows "Files (snd (AddFiles p files))
       = map (\<lambda>f. (storedID p f, snd (snd (AddFile p f)))) files"
    and "FilesAnalyzed (snd (AddFiles p files)) = FilesAnalyzed p"
  using fold_update_fresh [OF assms(3), of "[]" "\<lambda>f. snd (snd (AddFile p f))"]
  by (simp_all add: AddFiles_result [OF assms(1)] assms(2))

subsection \<open>The fragment of a successful \<open>Render\<close> starts with the template output\<close>

lemma Render_files_prefix:
  "Render_files fr pid fs doc = (d, None) \<Longrightarrow> prefix doc d"
proof (induction fs arbitrary: doc)
  case Nil
  then show ?case by simp
next
  case (Cons kf fs)
  obtain k f where kf: "kf = (k, f)" by (cases kf)
  obtain frag e where fr: "fr f = (frag, e)" by (cases "fr f")
  from Cons.prems kf fr have e: "e = None" by (cases e) simp_all
  from Cons.prems kf fr e
  have "Render_files fr pid fs
          (doc @ frag @ ''Relationship: '' @ pid @ '' CONTAINS '' @ ID_F f @ ''\<newline>\<newline>'')
        = (d, None)"
    by simp
  from Cons.IH [OF this] show ?case by (rule append_prefixD)
qed

lemma Render_pkgs_prefix:
  "Render_pkgs fr pid rel ps doc = ((d, None), ps1) \<Longrightarrow> prefix doc d"
proof (induction ps arbitrary: doc ps1)
  case Nil
  then show ?case by simp
next
  case (Cons kp ps)
  obtain k pkg where kp: "kp = (k, pkg)" by (cases kp)
  obtain pkgDoc e pkg1 where r: "Render fr pkg = ((pkgDoc, e), pkg1)"
    by (cases "Render fr pkg") auto
  from Cons.prems kp r have e: "e = None" by (cases e) simp_all
  obtain r2 rest1 where r2: "Render_pkgs fr pid rel ps
      (doc @ pkgDoc @ ''Relationship: '' @ pid @ '' '' @ rel @ '' '' @ ID pkg1 @ ''\<newline>\<newline>'')
      = (r2, rest1)"
    by (cases "Render_pkgs fr pid rel ps
      (doc @ pkgDoc @ ''Relationship: '' @ pid @ '' '' @ rel @ '' '' @ ID pkg1 @ ''\<newline>\<newline>'')")
  from Cons.prems kp r e r2 have "r2 = (d, None)" by simp
  with r2 Cons.IH show ?case by (auto dest: append_prefixD)
qed

lemma execTemplate_children [simp]:
  "execTemplate (set_Packages ps p) = execTemplate p"
  "execTemplate (set_Dependencies ds p) = execTemplate p"
  by (simp_all add: execTemplate_def)

lemma Render_ok:
  assumes "Render fr p = ((d, None), p2)"
  shows "\<exists>p1 ps ds. Render_verify p = Inr p1 \<and> prefix (execTemplate p1) d
            \<and> p2 = set_Dependencies ds (set_Packages ps p1)"
proof (cases "Render_verify p")
  case (Inl e)
  with assms show ?thesis by (simp add: Render_verify_fail)
next
  case (Inr p1)
  obtain d1 e1 where f: "Render_files fr (ID p1) (Files p1) (execTemplate p1) = (d1, e1)"
    by (cases "Render_files fr (ID p1) (Files p1) (execTemplate p1)")
  from assms Inr f have e1: "e1 = None"
    by (cases e1) (simp_all add: Render.simps)
  from f e1 have p1: "prefix (execTemplate p1) d1" by (simp add: Render_files_prefix)
  obtain d2 e2 ps where s: "Render_pkgs fr (ID p1) ''CONTAINS'' (Packages p1) d1 = ((d2, e2), ps)"
    by (cases "Render_pkgs fr (ID p1) ''CONTAINS'' (Packages p1) d1") auto
  from assms Inr f e1 s have e2: "e2 = None"
    by (cases e2) (simp_all add: Render.simps)
  from s e2 have p2: "prefix d1 d2" by (simp add: Render_pkgs_prefix)
  obtain r3 ds where t: "Render_pkgs fr (ID p1) ''DEPENDS_ON'' (Dependencies p1) d2 = (r3, ds)"
    by (cases "Render_pkgs fr (ID p1) ''DEPENDS_ON'' (Dependencies p1) d2")
  from assms Inr f e1 s e2 t have r3: "r3 = (d, None)"
    and st: "p2 = set_Dependencies ds (set_Packages ps p1)"
    by (simp_all add: Render.simps)
  from t r3 have "prefix d2 d" by (simp add: Render_pkgs_prefix)
  with p1 p2 have "prefix (execTemplate p1) d" by (meson prefix_order.trans)
  with Inr st show ?thesis by blast
qed

lemma sublist_of_prefix:
  "prefix h d \<Longrightarrow> h = a @ x @ b \<Longrightarrow> sublist x d"
  by (auto simp: prefix_def sublist_def)

lemma ends_line_optLine [simp]: "ends_line (optLine label v)"
  by (simp add: ends_line_def optLine_def)

lemma ends_line_licenseInfo [simp]: "ends_line (concat (map licenseInfoLine xs))"
  by (induction xs rule: rev_induct) (simp_all add: ends_line_def licenseInfoLine_def)

lemma ends_line_append [simp]: "ends_line s \<Longrightarrow> ends_line t \<Longrightarrow> ends_line (s @ t)"
  by (cases "t = []") (auto simp: ends_line_def)

lemma sublist_after_line:
  assumes "prefix h d" and "h = a @ ''\<newline>'' @ s @ x @ b" and "ends_line s"
  shows "sublist (''\<newline>'' @ x) d"
proof (cases "s = []")
  case True
  with assms(2) have "h = a @ (''\<newline>'' @ x) @ b" by simp
  with assms(1) show ?thesis by (rule sublist_of_prefix)
next
  case False
  with assms(3) have "s = butlast s @ ''\<newline>''"
    using append_butlast_last_id [of s] by (simp add: ends_line_def)
  then obtain t where "s = t @ ''\<newline>''" ..
  with assms(2) have "h = (a @ ''\<newline>'' @ t) @ (''\<newline>'' @ x) @ b" by simp
  with assms(1) show ?thesis by (rule sublist_of_prefix)
qed

subsection \<open>License tags and the fields the verification block leaves alone\<close>

lemma Render_collect_no_tags:
  "\<forall>kf \<in> set fs. LicenseInfoInFile (snd kf) = '''' \<Longrightarrow>
   Render_collect fs shaList tags = Inr (shaList1, tags1) \<Longrightarrow> tags1 = tags"
  by (induction fs shaList tags rule: Render_collect.induct)
     (auto split: option.splits)

lemma Render_verify_fields:
  assumes "Render_verify p = Inr p1"
  shows "LicenseConcluded p1 = LicenseConcluded p"
    and "LicenseDeclared p1 = LicenseDeclared p"
    and "Name p1 = Name p"
    and "ID p1 = ID p"
    and "Files p1 = Files p"
    and "FilesAnalyzed p1 = FilesAnalyzed p"
    and "\<not> FilesAnalyzed p \<Longrightarrow> p1 = p"
    and "Packages p1 = Packages p"
    and "Dependencies p1 = Dependencies p"
  using assms
  by (auto simp: Render_verify_def split: if_splits sum.splits prod.splits)

lemma Render_verify_no_tags:
  assumes "Render_verify p = Inr p1" and "FilesAnalyzed p"
    and "\<forall>kf \<in> set (Files p). LicenseInfoInFile (snd kf) = ''''"
  shows "LicenseInfoFromFiles p1 = LicenseInfoFromFiles p @ [''NONE'']"
  using assms Render_collect_no_tags [OF assms(3), of "[]" "[]"]
  by (auto simp: Render_verify_def NONE_def split: if_splits sum.splits prod.splits)

lemma execTemplate_concluded:
  "LicenseConcluded p = '''' \<Longrightarrow>
   execTemplate p
     = (''##### Package: '' @ htmlEscape (Name p) @ ''\<newline>\<newline>''
        @ optLine ''PackageName: '' (Name p)
        @ optLine ''SPDXID: '' (ID p)
        @ concat (map checksumLine (sort_key fst (Checksum p)))
        @ ''PackageDownloadLocation: '' @ valueOr (DownloadLocation p) ''NONE'' @ ''\<newline>''
        @ ''FilesAnalyzed: '' @ (if FilesAnalyzed p then ''true'' else ''false''))
       @ ''\<newline>''
       @ optLine ''PackageVerificationCode: '' (VerificationCode p)
       @ ''PackageLicenseConcluded: NOASSERTION\<newline>''
       @ (optLine ''PackageFileName: '' (FileName p)
          @ concat (map licenseInfoLine (LicenseInfoFromFiles p))
          @ optLine ''PackageVersion: '' (Version p)
          @ ''PackageLicenseDeclared: '' @ valueOr (LicenseDeclared p) ''NOASSERTION''
          @ ''\<newline>''
          @ ''PackageCopyrightText: ''
          @ (if CopyrightText p \<noteq> '''' then
               ''<text>'' @ htmlEscape (CopyrightText p) @ ''\<newline></text>''
             else ''NOASSERTION'')
          @ ''\<newline>\<newline>'')"
  by (simp add: execTemplate_def valueOr_def)

lemma execTemplate_declared:
  "LicenseDeclared p = '''' \<Longrightarrow>
   execTemplate p
     = (''##### Package: '' @ htmlEscape (Name p) @ ''\<newline>\<newline>''
        @ optLine ''PackageName: '' (Name p)
        @ optLine ''SPDXID: '' (ID p)
        @ concat (map checksumLine (sort_key fst (Checksum p)))
        @ ''PackageDownloadLocation: '' @ valueOr (DownloadLocation p) ''NONE'' @ ''\<newline>''
        @ ''FilesAnalyzed: '' @ (if FilesAnalyzed p then ''true'' else ''false'') @ ''\<newline>''
        @ optLine ''PackageVerificationCode: '' (VerificationCode p)
        @ ''PackageLicenseConcluded: '' @ valueOr (LicenseConcluded p) ''NOASSERTION'')
       @ ''\<newline>''
       @ (optLine ''PackageFileName: '' (FileName p)
          @ concat (map licenseInfoLine (LicenseInfoFromFiles p))
          @ optLine ''PackageVersion: '' (Version p))
       @ ''PackageLicenseDeclared: NOASSERTION\<newline>''
       @ (''PackageCopyrightText: ''
          @ (if CopyrightText p \<noteq> '''' then
               ''<text>'' @ htmlEscape (CopyrightText p) @ ''\<newline></text>''
             else ''NOASSERTION'')
          @ ''\<newline>\<newline>'')"
  by (simp add: execTemplate_def valueOr_def)

lemma execTemplate_last_tag:
  "LicenseInfoFromFiles p = tags @ [''NONE''] \<Longrightarrow>
   execTemplate p
     = (''##### Package: '' @ htmlEscape (Name p) @ ''\<newline>\<newline>''
        @ optLine ''PackageName: '' (Name p)
        @ optLine ''SPDXID: '' (ID p)
        @ concat (map checksumLine (sort_key fst (Checksum p)))
        @ ''PackageDownloadLocation: '' @ valueOr (DownloadLocation p) ''NONE'' @ ''\<newline>''
        @ ''FilesAnalyzed: '' @ (if FilesAnalyzed p then ''true'' else ''false'') @ ''\<newline>''
        @ optLine ''PackageVerificationCode: '' (VerificationCode p)
        @ ''PackageLicenseConcluded: '' @ valueOr (LicenseConcluded p) ''NOASSERTION'')
       @ ''\<newline>''
       @ (optLine ''PackageFileName: '' (FileName p) @ concat (map licenseInfoLine tags))
       @ ''PackageLicenseInfoFromFiles: NONE\<newline>''
       @ (optLine ''PackageVersion: '' (Version p)
          @ ''PackageLicenseDeclared: '' @ valueOr (LicenseDeclared p) ''NOASSERTION''
          @ ''\<newline>''
          @ ''PackageCopyrightText: ''
          @ (if CopyrightText p \<noteq> '''' then
               ''<text>'' @ htmlEscape (CopyrightText p) @ ''\<newline></text>''
             else ''NOASSERTION'')
          @ ''\<newline>\<newline>'')"
  by (simp add: execTemplate_def licenseInfoLine_def htmlEscape_def htmlEscapeChar_def)

lemma Render_NewPackage:
  "Render fr NewPackage
     = ((''##### Package: \<newline>\<newline>PackageDownloadLocation: NONE\<newline>FilesAnalyzed: false\<newline>PackageLicenseConcluded: NOASSERTION\<newline>PackageLicenseDeclared: NOASSERTION\<newline>PackageCopyrightText: NOASSERTION\<newline>\<newline>'',
         None), NewPackage)"
  by (simp add: Render.simps Render_verify_def NewPackage_def execTemplate_def optLine_def
      valueOr_def htmlEscape_def)

subsection \<open>The end-to-end example, evaluated\<close>

lemma AddFile_hello:
  "fst (AddFile (set_ID i hello) main_c) = None"
  "snd (snd (AddFile (set_ID i hello) main_c))
     = main_c\<lparr>ID_F := ''SPDXRef-File-'' @ sha1hex ''hello:main.c''\<rparr>"
  "fst (snd (AddFile hello main_c)) = hello_main '''' [] ''''"
  by (simp_all add: AddFile_def hello_def main_c_def hello_main_def Let_def)

lemma Render_hello_main:
  assumes "fr (main_c\<lparr>ID_F := ''SPDXRef-File-'' @ sha1hex ''hello:main.c''\<rparr>) = (frag, None)"
  shows "Render fr (hello_main i tags vc)
     = ((''##### Package: hello\<newline>\<newline>PackageName: hello\<newline>''
         @ optLine ''SPDXID: '' i
         @ ''PackageDownloadLocation: NONE\<newline>FilesAnalyzed: true\<newline>PackageVerificationCode: ''
         @ sha1hex ''aaaaaaaaaaaaaaaaaaaaaaaaaaaaaaaaaaaaaaaa''
         @ ''\<newline>PackageLicenseConcluded: NOASSERTION\<newline>''
         @ concat (map licenseInfoLine tags)
         @ ''PackageLicenseInfoFromFiles: NONE\<newline>PackageLicenseDeclared: NOASSERTION\<newline>PackageCopyrightText: NOASSERTION\<newline>\<newline>''
         @ frag
         @ ''Relationship: '' @ i @ '' CONTAINS SPDXRef-File-'' @ sha1hex ''hello:main.c''
         @ ''\<newline>\<newline>'',
         None),
        hello_main i (tags @ [''NONE'']) (sha1hex ''aaaaaaaaaaaaaaaaaaaaaaaaaaaaaaaaaaaaaaaa''))"
proof -
  let ?f = "main_c\<lparr>ID_F := ''SPDXRef-File-'' @ sha1hex ''hello:main.c''\<rparr>"
  have files: "Files (hello_main i tags vc) = [(''SPDXRef-File-'' @ sha1hex ''hello:main.c'', ?f)]"
    by (simp add: hello_main_def AddFile_def hello_def main_c_def Let_def)
  have v: "Render_verify (hello_main i tags vc)
      = Inr (hello_main i (tags @ [''NONE'']) (sha1hex ''aaaaaaaaaaaaaaaaaaaaaaaaaaaaaaaaaaaaaaaa''))"
    by (simp add: Render_verify_def hello_main_def AddFile_def hello_def main_c_def Let_def
        NONE_def)
  have esc: "htmlEscape ''hello'' = ''hello''" "htmlEscape ''NONE'' = ''NONE''"
    by (simp_all add: htmlEscape_def htmlEscapeChar_def)
  have t: "execTemplate (hello_main i (tags @ [''NONE''])
             (sha1hex ''aaaaaaaaaaaaaaaaaaaaaaaaaaaaaaaaaaaaaaaa''))
      = ''##### Package: hello\<newline>\<newline>PackageName: hello\<newline>''
         @ optLine ''SPDXID: '' i
         @ ''PackageDownloadLocation: NONE\<newline>FilesAnalyzed: true\<newline>PackageVerificationCode: ''
         @ sha1hex ''aaaaaaaaaaaaaaaaaaaaaaaaaaaaaaaaaaaaaaaa''
         @ ''\<newline>PackageLicenseConcluded: NOASSERTION\<newline>''
         @ concat (map licenseInfoLine tags)
         @ ''PackageLicenseInfoFromFiles: NONE\<newline>PackageLicenseDeclared: NOASSERTION\<newline>PackageCopyrightText: NOASSERTION\<newline>\<newline>''"
    using length_sha1hex [of "''aaaaaaaaaaaaaaaaaaaaaaaaaaaaaaaaaaaaaaaa''"] esc
    by (auto simp: execTemplate_def hello_main_def AddFile_def hello_def main_c_def Let_def
        valueOr_def optLine_def licenseInfoLine_def htmlEscape_sha1hex)
  have fs: "Files (hello_main i (tags @ [''NONE''])
             (sha1hex ''aaaaaaaaaaaaaaaaaaaaaaaaaaaaaaaaaaaaaaaa''))
      = [(''SPDXRef-File-'' @ sha1hex ''hello:main.c'', ?f)]"
    and rest: "Packages (hello_main i (tags @ [''NONE''])
             (sha1hex ''aaaaaaaaaaaaaaaaaaaaaaaaaaaaaaaaaaaaaaaa'')) = []"
      "Dependencies (hello_main i (tags @ [''NONE''])
             (sha1hex ''aaaaaaaaaaaaaaaaaaaaaaaaaaaaaaaaaaaaaaaa'')) = []"
      "ID (hello_main i (tags @ [''NONE''])
             (sha1hex ''aaaaaaaaaaaaaaaaaaaaaaaaaaaaaaaaaaaaaaaa'')) = i"
    by (simp_all add: hello_main_def AddFile_def hello_def main_c_def Let_def)
  have same: "set_Dependencies [] (set_Packages []
        (hello_main i (tags @ [''NONE'']) (sha1hex ''aaaaaaaaaaaaaaaaaaaaaaaaaaaaaaaaaaaaaaaa'')))
      = hello_main i (tags @ [''NONE'']) (sha1hex ''aaaaaaaaaaaaaaaaaaaaaaaaaaaaaaaaaaaaaaaa'')"
    by (simp add: hello_main_def AddFile_def hello_def main_c_def Let_def)
  from assms show ?thesis
    by (simp add: Render.simps v t fs rest same)
qed

subsection \<open>HTML escaping\<close>

lemma length_htmlEscapeChar: "1 \<le> length (htmlEscapeChar c)"
  by (simp add: htmlEscapeChar_def)

lemma length_htmlEscape: "length v \<le> length (htmlEscape v)"
proof (induction v)
  case Nil
  then show ?case by (simp add: htmlEscape_def)
next
  case (Cons c v)
  with length_htmlEscapeChar [of c] show ?case by (simp add: htmlEscape_def)
qed

lemma htmlEscape_longer:
  assumes "c \<in> set v" and "c \<in> {CHR ''<'', CHR ''>'', CHR ''&'', CHR 0x22, CHR 0x27}"
  shows "length v < length (htmlEscape v)"
  using assms(1)
proof (induction v)
  case Nil
  then show ?case by simp
next
  case (Cons a v)
  have split: "length (htmlEscape (a # v)) = length (htmlEscapeChar a) + length (htmlEscape v)"
    by (simp add: htmlEscape_def)
  show ?case
  proof (cases "a = c")
    case True
    with assms(2) have "4 \<le> length (htmlEscapeChar a)"
      by (auto simp: htmlEscapeChar_def)
    with split length_htmlEscape [of v] show ?thesis by simp
  next
    case False
    with Cons have "length v < length (htmlEscape v)" by simp
    with split length_htmlEscapeChar [of a] show ?thesis by simp
  qed
qed

lemma htmlEscape_changes:
  "c \<in> set v \<Longrightarrow> c \<in> {CHR ''<'', CHR ''>'', CHR ''&'', CHR 0x22, CHR 0x27}
     \<Longrightarrow> htmlEscape v \<noteq> v"
  using htmlEscape_longer [of c v] by auto

lemma htmlEscapeChar_no_raw:
  "set (htmlEscapeChar c) \<inter> {CHR ''<'', CHR ''>'', CHR 0x22, CHR 0x27} = {}"
  by (simp add: htmlEscapeChar_def)

lemma htmlEscape_no_raw:
  "set (htmlEscape v) \<inter> {CHR ''<'', CHR ''>'', CHR 0x22, CHR 0x27} = {}"
proof (induction v)
  case Nil
  then show ?case by (simp add: htmlEscape_def)
next
  case (Cons c v)
  have "set (htmlEscape (c # v)) = set (htmlEscapeChar c) \<union> set (htmlEscape v)"
    by (simp add: htmlEscape_def)
  then have "set (htmlEscape (c # v)) \<inter> {CHR ''<'', CHR ''>'', CHR 0x22, CHR 0x27}
      = (set (htmlEscapeChar c) \<inter> {CHR ''<'', CHR ''>'', CHR 0x22, CHR 0x27})
        \<union> (set (htmlEscape v) \<inter> {CHR ''<'', CHR ''>'', CHR 0x22, CHR 0x27})"
    by (simp only: Int_Un_distrib2)
  also have "\<dots> = {}"
    by (simp only: Cons htmlEscapeChar_no_raw Un_absorb)
  finally show ?case .
qed

subsection \<open>Every printed value stands escaped in the template output\<close>

lemma sublist_concatI:
  assumes "y \<in> set ys" and "sublist x y"
  shows "sublist x (concat ys)"
proof -
  from assms(1) obtain as bs where ys: "ys = as @ y # bs" by (auto dest: split_list)
  from assms(2) obtain ps ss where y: "y = ps @ x @ ss" by (auto simp: sublist_def)
  have "concat ys = (concat as @ ps) @ x @ (ss @ concat bs)" by (simp add: ys y)
  then show ?thesis unfolding sublist_def by blast
qed

lemma execTemplate_concat:
  "execTemplate p = concat
     [''##### Package: '' @ htmlEscape (Name p) @ ''\<newline>\<newline>'',
      optLine ''PackageName: '' (Name p),
      optLine ''SPDXID: '' (ID p),
      concat (map checksumLine (sort_key fst (Checksum p))),
      ''PackageDownloadLocation: '' @ valueOr (DownloadLocation p) ''NONE'' @ ''\<newline>'',
      ''FilesAnalyzed: '' @ (if FilesAnalyzed p then ''true'' else ''false'') @ ''\<newline>'',
      optLine ''PackageVerificationCode: '' (VerificationCode p),
      ''PackageLicenseConcluded: '' @ valueOr (LicenseConcluded p) ''NOASSERTION'' @ ''\<newline>'',
      optLine ''PackageFileName: '' (FileName p),
      concat (map licenseInfoLine (LicenseInfoFromFiles p)),
      optLine ''PackageVersion: '' (Version p),
      ''PackageLicenseDeclared: '' @ valueOr (LicenseDeclared p) ''NOASSERTION'' @ ''\<newline>'',
      ''PackageCopyrightText: ''
        @ (if CopyrightText p \<noteq> '''' then
             ''<text>'' @ htmlEscape (CopyrightText p) @ ''\<newline></text>''
           else ''NOASSERTION'')
        @ ''\<newline>\<newline>'']"
  by (simp add: execTemplate_def)

lemma htmlEscape_Nil [simp]: "htmlEscape [] = []"
  by (simp add: htmlEscape_def)

lemma sublist_optLine: "sublist (htmlEscape v) (optLine label v)"
  by (cases "v = []") (simp_all add: optLine_def)

lemma sublist_valueOr: "sublist (htmlEscape v) (label @ valueOr v sentinel @ rest)"
  by (cases "v = []") (simp_all add: valueOr_def)

lemma sublist_licenseInfo:
  "v \<in> set xs \<Longrightarrow> sublist (htmlEscape v) (concat (map licenseInfoLine xs))"
proof (rule sublist_concatI [of "licenseInfoLine v"])
  assume "v \<in> set xs"
  then show "licenseInfoLine v \<in> set (map licenseInfoLine xs)" by simp
  show "sublist (htmlEscape v) (licenseInfoLine v)"
    unfolding licenseInfoLine_def by (rule sublist_appendI)
qed

lemma sublist_checksum:
  assumes "kv \<in> set cs" and "snd kv \<noteq> []"
  shows "sublist (htmlEscape (fst kv)) (concat (map checksumLine (sort_key fst cs)))"
    and "sublist (htmlEscape (snd kv)) (concat (map checksumLine (sort_key fst cs)))"
proof -
  from assms(1) have m: "checksumLine kv \<in> set (map checksumLine (sort_key fst cs))" by simp
  from assms(2) have l: "checksumLine kv
      = ''PackageChecksum: '' @ htmlEscape (fst kv) @ ('': '' @ htmlEscape (snd kv) @ ''\<newline>'')"
    and r: "checksumLine kv
      = (''PackageChecksum: '' @ htmlEscape (fst kv) @ '': '') @ htmlEscape (snd kv) @ ''\<newline>''"
    by (simp_all add: checksumLine_def)
  have "sublist (htmlEscape (fst kv)) (checksumLine kv)"
    unfolding l by (rule sublist_appendI)
  with m show "sublist (htmlEscape (fst kv)) (concat (map checksumLine (sort_key fst cs)))"
    by (rule sublist_concatI)
  have "sublist (htmlEscape (snd kv)) (checksumLine kv)"
    unfolding r by (rule sublist_appendI)
  with m show "sublist (htmlEscape (snd kv)) (concat (map checksumLine (sort_key fst cs)))"
    by (rule sublist_concatI)
qed

lemma sublist_execTemplate:
  assumes "v \<in> set (printedValues p)"
  shows "sublist (htmlEscape v) (execTemplate p)"
proof -
  from assms consider
      (name) "v = Name p" | (id) "v = ID p" | (dl) "v = DownloadLocation p"
    | (vc) "v = VerificationCode p" | (lc) "v = LicenseConcluded p" | (fn) "v = FileName p"
    | (ve) "v = Version p" | (ld) "v = LicenseDeclared p" | (ct) "v = CopyrightText p"
    | (lf) "v \<in> set (LicenseInfoFromFiles p)"
    | (ck) kv where "kv \<in> set (Checksum p)" "snd kv \<noteq> []" "v = fst kv \<or> v = snd kv"
    by (auto simp: printedValues_def split: if_splits)
  then show ?thesis
  proof cases
    case name
    show ?thesis unfolding execTemplate_concat name
      by (rule sublist_concatI [of "''##### Package: '' @ htmlEscape (Name p) @ ''\<newline>\<newline>''"])
         (simp, rule sublist_appendI)
  next
    case id
    show ?thesis unfolding execTemplate_concat id
      by (rule sublist_concatI [of "optLine ''SPDXID: '' (ID p)"]) (simp_all add: sublist_optLine)
  next
    case dl
    show ?thesis unfolding execTemplate_concat dl
      by (rule sublist_concatI [of "''PackageDownloadLocation: ''
            @ valueOr (DownloadLocation p) ''NONE'' @ ''\<newline>''"])
         (simp, rule sublist_valueOr)
  next
    case vc
    show ?thesis unfolding execTemplate_concat vc
      by (rule sublist_concatI [of "optLine ''PackageVerificationCode: '' (VerificationCode p)"])
         (simp_all add: sublist_optLine)
  next
    case lc
    show ?thesis unfolding execTemplate_concat lc
      by (rule sublist_concatI [of "''PackageLicenseConcluded: ''
            @ valueOr (LicenseConcluded p) ''NOASSERTION'' @ ''\<newline>''"])
         (simp, rule sublist_valueOr)
  next
    case fn
    show ?thesis unfolding execTemplate_concat fn
      by (rule sublist_concatI [of "optLine ''PackageFileName: '' (FileName p)"])
         (simp_all add: sublist_optLine)
  next
    case ve
    show ?thesis unfolding execTemplate_concat ve
      by (rule sublist_concatI [of "optLine ''PackageVersion: '' (Version p)"])
         (simp_all add: sublist_optLine)
  next
    case ld
    show ?thesis unfolding execTemplate_concat ld
      by (rule sublist_concatI [of "''PackageLicenseDeclared: ''
            @ valueOr (LicenseDeclared p) ''NOASSERTION'' @ ''\<newline>''"])
         (simp, rule sublist_valueOr)
  next
    case ct
    have "sublist (htmlEscape (CopyrightText p))
        (''PackageCopyrightText: ''
          @ (if CopyrightText p \<noteq> '''' then
               ''<text>'' @ htmlEscape (CopyrightText p) @ ''\<newline></text>''
             else ''NOASSERTION'')
          @ ''\<newline>\<newline>'')"
    proof (cases "CopyrightText p = []")
      case True
      then show ?thesis by simp
    next
      case False
      have "sublist (htmlEscape (CopyrightText p))
          ((''PackageCopyrightText: '' @ ''<text>'') @ htmlEscape (CopyrightText p)
            @ (''\<newline></text>'' @ ''\<newline>\<newline>''))"
        by (rule sublist_appendI)
      with False show ?thesis by simp
    qed
    then show ?thesis unfolding execTemplate_concat ct
      by (rule sublist_concatI [rotated]) simp
  next
    case lf
    then have "sublist (htmlEscape v) (concat (map licenseInfoLine (LicenseInfoFromFiles p)))"
      by (rule sublist_licenseInfo)
    then show ?thesis unfolding execTemplate_concat
      by (rule sublist_concatI [rotated]) simp
  next
    case ck
    then have "sublist (htmlEscape v) (concat (map checksumLine (sort_key fst (Checksum p))))"
      using sublist_checksum [of kv "Checksum p"] by auto
    then show ?thesis unfolding execTemplate_concat
      by (rule sublist_concatI [rotated]) simp
  qed
qed

lemma printedValues_children [simp]:
  "printedValues (set_Packages ps p) = printedValues p"
  "printedValues (set_Dependencies ds p) = printedValues p"
  by (simp_all add: printedValues_def)

lemma Render_lt_name:
  "Render fr lt_name
     = ((''##### Package: a&lt;b\<newline>\<newline>PackageName: a&lt;b\<newline>PackageDownloadLocation: NONE\<newline>FilesAnalyzed: false\<newline>PackageLicenseConcluded: NOASSERTION\<newline>PackageLicenseDeclared: NOASSERTION\<newline>PackageCopyrightText: NOASSERTION\<newline>\<newline>'',
         None), lt_name)"
  by (simp add: Render.simps Render_verify_def lt_name_def execTemplate_def optLine_def
      valueOr_def htmlEscape_def htmlEscapeChar_def)

subsection \<open>\<open>Render\<close> assigns no ID\<close>

lemma allIDs_eq:
  "allIDs p = ID p # map (\<lambda>kf. ID_F (snd kf)) (Files p)
       @ concat (map (\<lambda>kp. allIDs (snd kp)) (Packages p))
       @ concat (map (\<lambda>kp. allIDs (snd kp)) (Dependencies p))"
  by (cases p) simp

lemma Render_keeps_IDs:
  "allIDs (snd (Render fr p)) = allIDs p"
  "map (\<lambda>kp. allIDs (snd kp)) (snd (Render_pkgs fr pid rel ps doc)) = map (\<lambda>kp. allIDs (snd kp)) ps"
proof (induction fr p and fr pid rel ps doc rule: Render_Render_pkgs.induct)
  case (1 fr p)
  show ?case
  proof (cases "Render_verify p")
    case (Inl e)
    then show ?thesis by (simp add: Render_verify_fail)
  next
    case (Inr p1)
    note v = Render_verify_fields(4,5,8,9) [OF Inr]
    have p1: "allIDs p1 = allIDs p" by (simp add: allIDs_eq [of p1] allIDs_eq [of p] v)
    obtain d1 e1 where f: "Render_files fr (ID p1) (Files p1) (execTemplate p1) = (d1, e1)"
      by (cases "Render_files fr (ID p1) (Files p1) (execTemplate p1)")
    show ?thesis
    proof (cases e1)
      case (Some e)
      with Inr f p1 show ?thesis by (simp add: Render.simps)
    next
      case None
      obtain r2 ps where s: "Render_pkgs fr (ID p1) ''CONTAINS'' (Packages p1) d1 = (r2, ps)"
        by (cases "Render_pkgs fr (ID p1) ''CONTAINS'' (Packages p1) d1")
      from "1.IH"(1) [OF Inr f [symmetric] None] s
      have ps: "map (\<lambda>kp. allIDs (snd kp)) ps = map (\<lambda>kp. allIDs (snd kp)) (Packages p1)"
        by simp
      obtain d2 e2 where r2: "r2 = (d2, e2)" by (cases r2)
      show ?thesis
      proof (cases e2)
        case (Some e)
        with Inr f None s r2 ps p1 show ?thesis
          by (simp add: Render.simps allIDs_eq [of "set_Packages ps p1"] allIDs_eq [of p1])
      next
        case n2: None
        obtain r3 ds where t: "Render_pkgs fr (ID p1) ''DEPENDS_ON'' (Dependencies p1) d2 = (r3, ds)"
          by (cases "Render_pkgs fr (ID p1) ''DEPENDS_ON'' (Dependencies p1) d2")
        have ds: "map (\<lambda>kp. allIDs (snd kp)) ds = map (\<lambda>kp. allIDs (snd kp)) (Dependencies p1)"
          using "1.IH"(2) [OF Inr f [symmetric] None] s r2 n2 t by simp
        with Inr f None s r2 n2 t ps p1 show ?thesis
          by (simp add: Render.simps allIDs_eq [of "set_Dependencies ds (set_Packages ps p1)"]
              allIDs_eq [of p1])
      qed
    qed
  qed
next
  case (2 fr pid rel docFragment)
  then show ?case by simp
next
  case (3 fr pid rel k pkg rest docFragment)
  then show ?case
    by (auto split: prod.splits option.splits)
qed

subsection \<open>Two digests, computed\<close>

lemma schedule_numeral:
  "schedule (numeral k) w =
     schedule (pred_numeral k)
       (w @ [rotl 1 (w ! (length w - 3) XOR w ! (length w - 8)
                      XOR w ! (length w - 14) XOR w ! (length w - 16))])"
  by (simp add: numeral_eq_Suc)

lemma chunks_one_block: "length xs = 64 \<Longrightarrow> chunks 64 xs = [xs]"
  by (cases xs) simp_all

lemma chunks4_step: "chunks 4 (a # b # c # d # xs) = [a, b, c, d] # chunks 4 xs"
  by (simp add: numeral_eq_Suc)

lemma be_bytes64_320: "be_bytes64 (0x140::64 word) = [0, 0, 0, 0, 0, 0, 1, 0x40]"
  by (simp add: be_bytes64_def upt_rec drop_bit_eq_div)

lemma sha1_words_a40:
  "map be_word (chunks 4 (sha1_pad (bytes ''aaaaaaaaaaaaaaaaaaaaaaaaaaaaaaaaaaaaaaaa'')))
     = [1633771873, 1633771873, 1633771873, 1633771873, 1633771873, 1633771873, 1633771873,
        1633771873, 1633771873, 1633771873, 2147483648, 0, 0, 0, 0, 320]"
  and sha1_blocks_a40:
  "chunks 64 (sha1_pad (bytes ''aaaaaaaaaaaaaaaaaaaaaaaaaaaaaaaaaaaaaaaa'')) = [sha1_pad (bytes ''aaaaaaaaaaaaaaaaaaaaaaaaaaaaaaaaaaaaaaaa'')]"
proof -
  have len: "length (bytes ''aaaaaaaaaaaaaaaaaaaaaaaaaaaaaaaaaaaaaaaa'') = 40"
    by (simp add: bytes_def)
  have pad: "sha1_pad (bytes ''aaaaaaaaaaaaaaaaaaaaaaaaaaaaaaaaaaaaaaaa'')
      = bytes ''aaaaaaaaaaaaaaaaaaaaaaaaaaaaaaaaaaaaaaaa'' @ [0x80] @ replicate 15 0 @ [0, 0, 0, 0, 0, 0, 1, 0x40]"
    unfolding sha1_pad_def len by (simp add: be_bytes64_320)
  show "chunks 64 (sha1_pad (bytes ''aaaaaaaaaaaaaaaaaaaaaaaaaaaaaaaaaaaaaaaa'')) = [sha1_pad (bytes ''aaaaaaaaaaaaaaaaaaaaaaaaaaaaaaaaaaaaaaaa'')]"
    by (rule chunks_one_block) (simp add: pad len)
  have zeros: "replicate 15 (0::byte) = [0, 0, 0, 0, 0, 0, 0, 0, 0, 0, 0, 0, 0, 0, 0]"
    by (simp add: numeral_eq_Suc)
  show "map be_word (chunks 4 (sha1_pad (bytes ''aaaaaaaaaaaaaaaaaaaaaaaaaaaaaaaaaaaaaaaa'')))
     = [1633771873, 1633771873, 1633771873, 1633771873, 1633771873, 1633771873, 1633771873,
        1633771873, 1633771873, 1633771873, 2147483648, 0, 0, 0, 0, 320]"
    unfolding pad zeros
    by (simp add: bytes_def chunks4_step be_word_def del: chunks.simps(2))
qed

lemma sha1_schedule_a40:
  "schedule 64
     [1633771873, 1633771873, 1633771873, 1633771873, 1633771873, 1633771873, 1633771873,
      1633771873, 1633771873, 1633771873, 2147483648, 0, 0, 0, 0, 320]
   = [1633771873, 1633771873, 1633771873, 1633771873, 1633771873, 1633771873, 1633771873,
      1633771873, 1633771873, 1633771873, 2147483648, 0, 0, 0, 0, 320, 3267543746,
      3267543746, 641, 2240120197, 2240120197, 1282, 185273099, 185272715, 1195855170,
      1364283729, 370546197, 2240123279, 2846468521, 741090478, 2560143500, 3233859392,
      1397969759, 488459573, 2795941026, 2795930798, 1953813540, 50530571, 3840206038,
      3722221437, 33686022, 1515901562, 2307590343, 437937938, 1044266742, 3435775044,
      1785380910, 2088650748, 1987867518, 387430303, 1313763194, 2475111315, 1936945975,
      3098569360, 1041640154, 286712729, 2324309598, 3531755610, 3520820645, 2679991607,
      3947608939, 3015260443, 2071718267, 577327395, 33687170, 1523743322, 2636018071,
      1829791085, 4193857977, 235111179, 1173291301, 805938866, 2929831140, 2751761444,
      789459927, 3748346699, 2610683675, 1639690697, 3355159343, 2790434209]"
  by (simp add: schedule_numeral rotl_def)

lemma sha1_rounds_a40:
  "sha1_rounds 0
     [1633771873, 1633771873, 1633771873, 1633771873, 1633771873, 1633771873, 1633771873,
      1633771873, 1633771873, 1633771873, 2147483648, 0, 0, 0, 0, 320, 3267543746,
      3267543746, 641, 2240120197, 2240120197, 1282, 185273099, 185272715, 1195855170,
      1364283729, 370546197, 2240123279, 2846468521, 741090478, 2560143500, 3233859392,
      1397969759, 488459573, 2795941026, 2795930798, 1953813540, 50530571, 3840206038,
      3722221437, 33686022, 1515901562, 2307590343, 437937938, 1044266742, 3435775044,
      1785380910, 2088650748, 1987867518, 387430303, 1313763194, 2475111315, 1936945975,
      3098569360, 1041640154, 286712729, 2324309598, 3531755610, 3520820645, 2679991607,
      3947608939, 3015260443, 2071718267, 577327395, 33687170, 1523743322, 2636018071,
      1829791085, 4193857977, 235111179, 1173291301, 805938866, 2929831140, 2751761444,
      789459927, 3748346699, 2610683675, 1639690697, 3355159343, 2790434209]
     (0x67452301, 0xEFCDAB89, 0x98BADCFE, 0x10325476, 0xC3D2E1F0)
   = (1042298432, 2650400003, 1295373645, 4120197519, 2565177836)"
  by (simp add: rotl_def sha1_f_def sha1_k_def)

lemma sha1_Sum_a40:
  "sha1_Sum (bytes ''aaaaaaaaaaaaaaaaaaaaaaaaaaaaaaaaaaaaaaaa'')
     = [165, 101, 89, 65, 141, 199, 144, 140, 229, 240, 178, 75, 5, 199, 142, 5, 92, 184,
        99, 220]"
proof -
  have "sha1_block (0x67452301, 0xEFCDAB89, 0x98BADCFE, 0x10325476, 0xC3D2E1F0)
          (sha1_pad (bytes ''aaaaaaaaaaaaaaaaaaaaaaaaaaaaaaaaaaaaaaaa''))
      = (2774882625, 2378666124, 3857756747, 96964101, 1555588060)"
    unfolding sha1_block_def sha1_words_a40 sha1_schedule_a40 sha1_rounds_a40 by simp
  then show ?thesis
    by (simp add: sha1_Sum_def sha1_blocks_a40 be_bytes32_def upt_rec drop_bit_eq_div)
qed

lemma sha1hex_a40:
  "sha1hex ''aaaaaaaaaaaaaaaaaaaaaaaaaaaaaaaaaaaaaaaa'' = ''a56559418dc7908ce5f0b24b05c78e055cb863dc''"
  by (simp add: sha1hex_def sha1_Sum_a40 hex_def hexdigit_def)
lemma sha1_words_b40:
  "map be_word (chunks 4 (sha1_pad (bytes ''bbbbbbbbbbbbbbbbbbbbbbbbbbbbbbbbbbbbbbbb'')))
     = [1650614882, 1650614882, 1650614882, 1650614882, 1650614882, 1650614882, 1650614882,
        1650614882, 1650614882, 1650614882, 2147483648, 0, 0, 0, 0, 320]"
  and sha1_blocks_b40:
  "chunks 64 (sha1_pad (bytes ''bbbbbbbbbbbbbbbbbbbbbbbbbbbbbbbbbbbbbbbb'')) = [sha1_pad (bytes ''bbbbbbbbbbbbbbbbbbbbbbbbbbbbbbbbbbbbbbbb'')]"
proof -
  have len: "length (bytes ''bbbbbbbbbbbbbbbbbbbbbbbbbbbbbbbbbbbbbbbb'') = 40"
    by (simp add: bytes_def)
  have pad: "sha1_pad (bytes ''bbbbbbbbbbbbbbbbbbbbbbbbbbbbbbbbbbbbbbbb'')
      = bytes ''bbbbbbbbbbbbbbbbbbbbbbbbbbbbbbbbbbbbbbbb'' @ [0x80] @ replicate 15 0 @ [0, 0, 0, 0, 0, 0, 1, 0x40]"
    unfolding sha1_pad_def len by (simp add: be_bytes64_320)
  show "chunks 64 (sha1_pad (bytes ''bbbbbbbbbbbbbbbbbbbbbbbbbbbbbbbbbbbbbbbb'')) = [sha1_pad (bytes ''bbbbbbbbbbbbbbbbbbbbbbbbbbbbbbbbbbbbbbbb'')]"
    by (rule chunks_one_block) (simp add: pad len)
  have zeros: "replicate 15 (0::byte) = [0, 0, 0, 0, 0, 0, 0, 0, 0, 0, 0, 0, 0, 0, 0]"
    by (simp add: numeral_eq_Suc)
  show "map be_word (chunks 4 (sha1_pad (bytes ''bbbbbbbbbbbbbbbbbbbbbbbbbbbbbbbbbbbbbbbb'')))
     = [1650614882, 1650614882, 1650614882, 1650614882, 1650614882, 1650614882, 1650614882,
        1650614882, 1650614882, 1650614882, 2147483648, 0, 0, 0, 0, 320]"
    unfolding pad zeros
    by (simp add: bytes_def chunks4_step be_word_def del: chunks.simps(2))
qed

lemma sha1_schedule_b40:
  "schedule 64
     [1650614882, 1650614882, 1650614882, 1650614882, 1650614882, 1650614882, 1650614882,
      1650614882, 1650614882, 1650614882, 2147483648, 0, 0, 0, 0, 320]
   = [1650614882, 1650614882, 1650614882, 1650614882, 1650614882, 1650614882, 1650614882,
      1650614882, 1650614882, 1650614882, 2147483648, 0, 0, 0, 0, 320, 3301229764,
      3301229764, 641, 2307492233, 2307492233, 1282, 320017171, 320016787, 1296910152,
      1802201963, 640034341, 2307497347, 3318072773, 1280066766, 3166475432, 606348196,
      2341178247, 892691741, 387390739, 387396895, 3570693252, 2425395864, 3958107097,
      286284721, 3772834020, 2021191768, 3418966661, 1684281708, 2880154467, 1717792494,
      1903287093, 1465216215, 876491068, 1448539870, 3200163722, 2948272047, 2240120257,
      2998558874, 2877538127, 2003863039, 1532753807, 3281207627, 1398404903, 3989774149,
      966355385, 2712349449, 101094406, 2681531550, 3772834912, 2029017208, 4016833509,
      542976032, 3739096734, 370907923, 2902976973, 3956440425, 4260560823, 4149731191,
      3707617316, 597149623, 741107884, 3912448321, 3505175608, 1102398022]"
  by (simp add: schedule_numeral rotl_def)

lemma sha1_rounds_b40:
  "sha1_rounds 0
     [1650614882, 1650614882, 1650614882, 1650614882, 1650614882, 1650614882, 1650614882,
      1650614882, 1650614882, 1650614882, 2147483648, 0, 0, 0, 0, 320, 3301229764,
      3301229764, 641, 2307492233, 2307492233, 1282, 320017171, 320016787, 1296910152,
      1802201963, 640034341, 2307497347, 3318072773, 1280066766, 3166475432, 606348196,
      2341178247, 892691741, 387390739, 387396895, 3570693252, 2425395864, 3958107097,
      286284721, 3772834020, 2021191768, 3418966661, 1684281708, 2880154467, 1717792494,
      1903287093, 1465216215, 876491068, 1448539870, 3200163722, 2948272047, 2240120257,
      2998558874, 2877538127, 2003863039, 1532753807, 3281207627, 1398404903, 3989774149,
      966355385, 2712349449, 101094406, 2681531550, 3772834912, 2029017208, 4016833509,
      542976032, 3739096734, 370907923, 2902976973, 3956440425, 4260560823, 4149731191,
      3707617316, 597149623, 741107884, 3912448321, 3505175608, 1102398022]
     (0x67452301, 0xEFCDAB89, 0x98BADCFE, 0x10325476, 0xC3D2E1F0)
   = (4020465590, 1625529194, 26054138, 3001745640, 3634641230)"
  by (simp add: rotl_def sha1_f_def sha1_k_def)

lemma sha1_Sum_b40:
  "sha1_Sum (bytes ''bbbbbbbbbbbbbbbbbbbbbbbbbbbbbbbbbbbbbbbb'')
     = [86, 232, 146, 183, 80, 177, 70, 243, 154, 72, 106, 248, 195, 29, 85, 94, 156, 119,
        27, 62]"
proof -
  have "sha1_block (0x67452301, 0xEFCDAB89, 0x98BADCFE, 0x10325476, 0xC3D2E1F0)
          (sha1_pad (bytes ''bbbbbbbbbbbbbbbbbbbbbbbbbbbbbbbbbbbbbbbb''))
      = (1458082487, 1353795315, 2588437240, 3273479518, 2625051454)"
    unfolding sha1_block_def sha1_words_b40 sha1_schedule_b40 sha1_rounds_b40 by simp
  then show ?thesis
    by (simp add: sha1_Sum_def sha1_blocks_b40 be_bytes32_def upt_rec drop_bit_eq_div)
qed

lemma sha1hex_b40:
  "sha1hex ''bbbbbbbbbbbbbbbbbbbbbbbbbbbbbbbbbbbbbbbb'' = ''56e892b750b146f39a486af8c31d555e9c771b3e''"
  by (simp add: sha1hex_def sha1_Sum_b40 hex_def hexdigit_def)

section \<open>Synthesized identifiers\<close>

text \<open>
  C3, as stated: the ID synthesized by \<open>AddFile\<close> is \<open>File-\<close> followed by the digest.
  It is not: for the file \<open>main.c\<close> attached to the package \<open>hello\<close> the ID differs from
  that string, because the code puts \<open>SPDXRef-\<close> in front.
\<close>

theorem C3_file_id_counterexample:
  "ID_F (snd (snd (AddFile hello main_c))) \<noteq> ''File-'' @ sha1hex (''hello:main.c'')"
  by (simp add: AddFile_def hello_def main_c_def Let_def)

text \<open>
  C3, amended: a file with empty ID and non-empty name, attached to a package with
  non-empty name, is attached without error under the ID \<open>SPDXRef-File-\<close> followed by
  the SHA1 digest of \<open><package name>:<file name>\<close>, printed as 40 lower-case hex
  digits. A package with empty ID whose name keeps at least one character after every
  character outside letters, digits, \<open>.\<close> and \<open>-\<close> is stripped, attached as sub-package
  or dependency, gets the ID \<open>SPDXRef-Package-\<close> followed by the stripped name.
\<close>

theorem C3_synthesized_ids:
  "(ID_F file = '''' \<and> Name_F file \<noteq> '''' \<and> Name p \<noteq> '''' \<longrightarrow>
      fst (AddFile p file) = None
      \<and> ID_F (snd (snd (AddFile p file)))
          = ''SPDXRef-File-'' @ sha1hex (Name p @ '':'' @ Name_F file)
      \<and> map_of (Files (fst (snd (AddFile p file)))) (ID_F (snd (snd (AddFile p file))))
          = Some (snd (snd (AddFile p file)))
      \<and> length (sha1hex (Name p @ '':'' @ Name_F file)) = 40
      \<and> set (sha1hex (Name p @ '':'' @ Name_F file)) \<subseteq> set ''0123456789abcdef'')
   \<and> (ID pkg = '''' \<and> filter validNameChar (Name pkg) \<noteq> '''' \<longrightarrow>
      ID (snd (snd (AddPackage q pkg)))
          = ''SPDXRef-Package-'' @ filter validNameChar (Name pkg)
      \<and> ID (snd (snd (AddDependency q pkg)))
          = ''SPDXRef-Package-'' @ filter validNameChar (Name pkg))"
proof (intro conjI impI)
  assume a: "ID_F file = '''' \<and> Name_F file \<noteq> '''' \<and> Name p \<noteq> ''''"
  then show "fst (AddFile p file) = None"
    by (simp add: AddFile_def Let_def)
  from a show "ID_F (snd (snd (AddFile p file)))
      = ''SPDXRef-File-'' @ sha1hex (Name p @ '':'' @ Name_F file)"
    by (simp add: AddFile_def Let_def)
  from a show "map_of (Files (fst (snd (AddFile p file)))) (ID_F (snd (snd (AddFile p file))))
      = Some (snd (snd (AddFile p file)))"
    by (simp add: AddFile_def Let_def update_conv')
  show "length (sha1hex (Name p @ '':'' @ Name_F file)) = 40"
    by (rule length_sha1hex)
  show "set (sha1hex (Name p @ '':'' @ Name_F file)) \<subseteq> set ''0123456789abcdef''"
    by (rule set_sha1hex)
next
  assume b: "ID pkg = '''' \<and> filter validNameChar (Name pkg) \<noteq> ''''"
  then show "ID (snd (snd (AddPackage q pkg)))
      = ''SPDXRef-Package-'' @ filter validNameChar (Name pkg)"
    by (simp add: AddPackage_def preProcessSubPackage_def Let_def split: prod.splits option.splits)
  from b show "ID (snd (snd (AddDependency q pkg)))
      = ''SPDXRef-Package-'' @ filter validNameChar (Name pkg)"
    by (simp add: AddDependency_def preProcessSubPackage_def Let_def
        split: prod.splits option.splits)
qed

theorem C3_synthesized_ids_witness:
  "ID_F (snd (snd (AddFile hello main_c))) = ''SPDXRef-File-'' @ sha1hex ''hello:main.c''
   \<and> fst (AddFile hello main_c) = None
   \<and> ID (snd (snd (AddPackage hello libfoo))) = ''SPDXRef-Package-libfoo1.2-rc''
   \<and> ID (snd (snd (AddDependency hello libfoo))) = ''SPDXRef-Package-libfoo1.2-rc''"
  using C3_synthesized_ids [of main_c hello libfoo hello]
  by (simp add: hello_def main_c_def libfoo_def validNameChar_def)

section \<open>The verification code\<close>

text \<open>
  C1: for a package with \<open>FilesAnalyzed\<close> true whose files all carry a SHA1 entry (the
  entries are \<open>hs\<close>, in the order of the map), \<open>Render\<close> sets \<open>VerificationCode\<close> to the
  hex SHA1 digest of the concatenation of the sorted \<open>hs\<close>; the assignment stands also
  when a later step of the call fails. There must be a file to hash: on a package
  without files \<open>Render\<close> returns its error before the assignment.
\<close>

theorem C1_verification_code:
  assumes "FilesAnalyzed p"
    and "map (fileSHA1 \<circ> snd) (Files p) = map Some hs"
  shows "(Files p \<noteq> [] \<longrightarrow>
            VerificationCode (snd (Render fr p)) = sha1hex (concat (sort hs)))
       \<and> (Files p = [] \<longrightarrow>
            Render fr p
              = (('''', Some ''unable to get package verification code, package has no files''),
                 p))"
proof (intro conjI impI)
  assume ne: "Files p \<noteq> []"
  from assms(2) obtain tags1 where "Render_collect (Files p) [] [] = Inr (hs, tags1)"
    using Render_collect_sha [of "Files p" hs "[]" "[]"] by auto
  with assms(1) ne obtain p1 where p1: "Render_verify p = Inr p1"
    and vc: "VerificationCode p1 = sha1hex (concat (sort hs))"
    by (simp add: Render_verify_def)
  from Render_state_scalars(1) [OF p1] vc
  show "VerificationCode (snd (Render fr p)) = sha1hex (concat (sort hs))" by simp
next
  assume "Files p = []"
  with assms(1) have "Render_verify p
      = Inl ''unable to get package verification code, package has no files''"
    by (simp add: Render_verify_def)
  then show "Render fr p
      = (('''', Some ''unable to get package verification code, package has no files''), p)"
    by (rule Render_verify_fail)
qed

theorem C1_verification_code_witness:
  "FilesAnalyzed two_files \<and> Files two_files \<noteq> []
   \<and> VerificationCode (snd (Render nameOnly two_files))
     = sha1hex (''aaaaaaaaaaaaaaaaaaaaaaaaaaaaaaaaaaaaaaaa''
                @ ''bbbbbbbbbbbbbbbbbbbbbbbbbbbbbbbbbbbbbbbb'')"
  using C1_verification_code [of two_files
      "[''bbbbbbbbbbbbbbbbbbbbbbbbbbbbbbbbbbbbbbbb'', ''aaaaaaaaaaaaaaaaaaaaaaaaaaaaaaaaaaaaaaaa'']"
      nameOnly]
  by (simp add: two_files_def fileSHA1_def less_eq_char_def)

section \<open>The order in which files are attached\<close>

text \<open>
  C2, as stated: for any set of files the verification code is the same for every
  order in which they are attached. It is not: two files of the same name and without
  an ID get the same synthesized ID, \<open>AddFile\<close> lets the later one replace the earlier,
  and \<open>Render\<close> hashes whichever is left: attached in one order the code is the digest
  of \<open>bbbb\<dots>\<close>, in the other the digest of \<open>aaaa\<dots>\<close>.
\<close>

theorem C2_same_name_counterexample:
  "fst (AddFiles hello [dup_a, dup_b]) = None
   \<and> fst (AddFiles hello [dup_b, dup_a]) = None
   \<and> VerificationCode (snd (Render nameOnly (snd (AddFiles hello [dup_a, dup_b]))))
       = ''56e892b750b146f39a486af8c31d555e9c771b3e''
   \<and> VerificationCode (snd (Render nameOnly (snd (AddFiles hello [dup_b, dup_a]))))
       = ''a56559418dc7908ce5f0b24b05c78e055cb863dc''
   \<and> VerificationCode (snd (Render nameOnly (snd (AddFiles hello [dup_a, dup_b]))))
       \<noteq> VerificationCode (snd (Render nameOnly (snd (AddFiles hello [dup_b, dup_a]))))"
proof -
  let ?k = "''SPDXRef-File-'' @ sha1hex ''hello:a.c''"
  let ?ab = "snd (AddFiles hello [dup_a, dup_b])" and ?ba = "snd (AddFiles hello [dup_b, dup_a])"
  have ok: "fst (AddFiles hello [dup_a, dup_b]) = None" "fst (AddFiles hello [dup_b, dup_a]) = None"
    by (simp_all add: AddFile_def hello_def dup_a_def dup_b_def Let_def)
  have ab: "FilesAnalyzed ?ab" "Files ?ab = [(?k, dup_b\<lparr>ID_F := ?k\<rparr>)]"
    by (simp_all add: AddFile_def hello_def dup_a_def dup_b_def Let_def)
  have ba: "FilesAnalyzed ?ba" "Files ?ba = [(?k, dup_a\<lparr>ID_F := ?k\<rparr>)]"
    by (simp_all add: AddFile_def hello_def dup_a_def dup_b_def Let_def)
  have "VerificationCode (snd (Render nameOnly ?ab))
      = sha1hex (concat (sort [''bbbbbbbbbbbbbbbbbbbbbbbbbbbbbbbbbbbbbbbb'']))"
  proof (rule Render_sets_code)
    show "FilesAnalyzed ?ab" by (rule ab(1))
    show "Files ?ab \<noteq> []" unfolding ab(2) by simp
    show "map (fileSHA1 \<circ> snd) (Files ?ab) = map Some [''bbbbbbbbbbbbbbbbbbbbbbbbbbbbbbbbbbbbbbbb'']"
      unfolding ab(2) by (simp add: fileSHA1_def dup_b_def)
  qed
  then have 1: "VerificationCode (snd (Render nameOnly ?ab))
      = ''56e892b750b146f39a486af8c31d555e9c771b3e''"
    by (simp add: sha1hex_b40)
  have "VerificationCode (snd (Render nameOnly ?ba))
      = sha1hex (concat (sort [''aaaaaaaaaaaaaaaaaaaaaaaaaaaaaaaaaaaaaaaa'']))"
  proof (rule Render_sets_code)
    show "FilesAnalyzed ?ba" by (rule ba(1))
    show "Files ?ba \<noteq> []" unfolding ba(2) by simp
    show "map (fileSHA1 \<circ> snd) (Files ?ba) = map Some [''aaaaaaaaaaaaaaaaaaaaaaaaaaaaaaaaaaaaaaaa'']"
      unfolding ba(2) by (simp add: fileSHA1_def dup_a_def)
  qed
  then have 2: "VerificationCode (snd (Render nameOnly ?ba))
      = ''a56559418dc7908ce5f0b24b05c78e055cb863dc''"
    by (simp add: sha1hex_a40)
  have "''56e892b750b146f39a486af8c31d555e9c771b3e'' \<noteq> ''a56559418dc7908ce5f0b24b05c78e055cb863dc''"
    by simp
  with ok 1 2 show ?thesis by (simp only: simp_thms)
qed

text \<open>
  C2, amended: files whose IDs (given, or synthesized by \<open>AddFile\<close>) are pairwise
  distinct are attached, in two different orders, to a package whose \<open>Files\<close> has unique
  keys. If the first order succeeds, so does the second, \<open>Render\<close> leaves the same
  verification code in both resulting packages, and its verification block fails on one
  exactly when it fails on the other. When moreover the package had \<open>FilesAnalyzed\<close>
  true and no files before, and the files carry the SHA1 values \<open>hs\<close>, that code is the
  hex SHA1 digest of the concatenation of the sorted \<open>hs\<close>.
\<close>

theorem C2_order_independence:
  assumes "mset files1 = mset files2"
    and "distinct (map (storedID p) files1)"
    and "distinct (map fst (Files p))"
    and "fst (AddFiles p files1) = None"
  shows "fst (AddFiles p files2) = None
       \<and> VerificationCode (snd (Render fr (snd (AddFiles p files1))))
         = VerificationCode (snd (Render fr (snd (AddFiles p files2))))
       \<and> isl (Render_verify (snd (AddFiles p files1)))
         = isl (Render_verify (snd (AddFiles p files2)))
       \<and> (FilesAnalyzed p \<and> Files p = [] \<and> files1 \<noteq> [] \<and> map fileSHA1 files1 = map Some hs \<longrightarrow>
            VerificationCode (snd (Render fr (snd (AddFiles p files2))))
              = sha1hex (concat (sort hs)))"
proof -
  from assms(1) have "set files1 = set files2" by (rule mset_eq_setD)
  with assms(4) have ok2: "fst (AddFiles p files2) = None"
    by (simp add: AddFiles_ok_iff)
  let ?P1 = "snd (AddFiles p files1)" and ?P2 = "snd (AddFiles p files2)"
  have same: "set_Files [] ?P1 = set_Files [] ?P2"
    by (simp add: AddFiles_result [OF assms(4)] AddFiles_result [OF ok2])
  have "mset (Files ?P1) = mset (Files ?P2)"
    using mset_fold_update_permuted [OF assms(1,2,3)]
    by (simp add: AddFiles_result [OF assms(4)] AddFiles_result [OF ok2])
  note eq = Render_verify_mset [OF same this]
  have "VerificationCode (snd (Render fr ?P2)) = sha1hex (concat (sort hs))"
    if a: "FilesAnalyzed p \<and> Files p = [] \<and> files1 \<noteq> [] \<and> map fileSHA1 files1 = map Some hs"
  proof -
    from a have e: "Files p = []" by simp
    note fresh = AddFiles_fresh [OF assms(4) e assms(2)]
    from a fresh have "FilesAnalyzed ?P1" and "Files ?P1 \<noteq> []" by simp_all
    moreover from a have "map (fileSHA1 \<circ> snd) (Files ?P1) = map Some hs"
      by (simp add: fresh(1) comp_def AddFile_keeps_SHA1)
    ultimately have "VerificationCode (snd (Render fr ?P1)) = sha1hex (concat (sort hs))"
      by (rule Render_sets_code)
    with eq(2) [of fr] show ?thesis by simp
  qed
  with eq ok2 show ?thesis by blast
qed

theorem C2_order_independence_witness:
  "fst (AddFiles hello [file_b, file_a]) = None
   \<and> fst (AddFiles hello [file_a, file_b]) = None
   \<and> VerificationCode (snd (Render nameOnly (snd (AddFiles hello [file_b, file_a]))))
     = VerificationCode (snd (Render nameOnly (snd (AddFiles hello [file_a, file_b]))))
   \<and> VerificationCode (snd (Render nameOnly (snd (AddFiles hello [file_a, file_b]))))
     = sha1hex (''aaaaaaaaaaaaaaaaaaaaaaaaaaaaaaaaaaaaaaaa''
                @ ''bbbbbbbbbbbbbbbbbbbbbbbbbbbbbbbbbbbbbbbb'')"
  using C2_order_independence [of "[file_b, file_a]" "[file_a, file_b]" hello nameOnly
      "[''bbbbbbbbbbbbbbbbbbbbbbbbbbbbbbbbbbbbbbbb'', ''aaaaaaaaaaaaaaaaaaaaaaaaaaaaaaaaaaaaaaaa'']"]
  by (simp add: hello_def file_a_def file_b_def storedID_def AddFile_def fileSHA1_def
      less_eq_char_def)

section \<open>Conflicts between sub-packages and dependencies\<close>

text \<open>
  C5: when the explicit or derived ID \<open>i\<close> of a package is already a key of the parent's
  \<open>Packages\<close> or \<open>Dependencies\<close>, both \<open>AddPackage\<close> and \<open>AddDependency\<close> return the
  conflict error that names \<open>i\<close>, and the parent is returned as it was: neither map
  gains or loses an entry.
\<close>

theorem C5_conflict_leaves_parent:
  assumes "subPackageID pkg = Some i"
    and "i \<in> fst ` set (Packages p) \<union> fst ` set (Dependencies p)"
  shows "fst (AddPackage p pkg)
           = Some (''performing subpackage preprocessing: a package named '' @ i
                   @ '' already exists as a ''
                   @ (if i \<in> fst ` set (Packages p) then ''subpackage'' else ''dependency''))
       \<and> fst (AddDependency p pkg) = fst (AddPackage p pkg)
       \<and> fst (snd (AddPackage p pkg)) = p \<and> fst (snd (AddDependency p pkg)) = p
       \<and> Packages (fst (snd (AddPackage p pkg))) = Packages p
       \<and> Dependencies (fst (snd (AddPackage p pkg))) = Dependencies p
       \<and> Packages (fst (snd (AddDependency p pkg))) = Packages p
       \<and> Dependencies (fst (snd (AddDependency p pkg))) = Dependencies p"
proof -
  define pkg1 where "pkg1 = snd (preProcessSubPackage p pkg)"
  from assms(1) have id1: "ID pkg1 = i" and ne: "i \<noteq> ''''"
    by (auto simp: pkg1_def subPackageID_def preProcessSubPackage_def Let_def
        split: if_splits)
  have pre: "preProcessSubPackage p pkg
      = (Some (''a package named '' @ i @ '' already exists as a ''
               @ (if i \<in> fst ` set (Packages p) then ''subpackage'' else ''dependency'')),
         pkg1)"
    using assms id1 ne
    by (auto simp: pkg1_def subPackageID_def preProcessSubPackage_def Let_def
        map_of_eq_None_iff split: if_splits)
  show ?thesis
    by (simp add: AddPackage_def AddDependency_def pre Wrap_def)
qed

theorem C5_conflict_leaves_parent_witness:
  "subPackageID libfoo = Some ''SPDXRef-Package-libfoo1.2-rc''
   \<and> fst (AddPackage with_dep libfoo)
       = Some (''performing subpackage preprocessing: a package named ''
               @ ''SPDXRef-Package-libfoo1.2-rc'' @ '' already exists as a dependency'')
   \<and> fst (snd (AddPackage with_dep libfoo)) = with_dep
   \<and> fst (snd (AddDependency with_dep libfoo)) = with_dep"
  using C5_conflict_leaves_parent [of libfoo "''SPDXRef-Package-libfoo1.2-rc''" with_dep]
  by (simp add: subPackageID_def libfoo_def with_dep_def validNameChar_def)

section \<open>Failures of the verification block\<close>

text \<open>
  C6, as stated: the error returned for a file without checksums names the offending
  file. It does not: for a package whose file \<open>main.c\<close> (ID \<open>SPDXRef-File-main\<close>) has no
  checksums, the error is a fixed message that holds neither the name nor the ID.
\<close>

theorem C6_error_names_file_counterexample:
  "snd (fst (Render nameOnly no_sums)) = Some ''unable to render package, file has no checksums''
   \<and> \<not> sublist ''main.c'' ''unable to render package, file has no checksums''
   \<and> \<not> sublist ''SPDXRef-File-main'' ''unable to render package, file has no checksums''"
proof -
  have "Render_verify no_sums = Inl ''unable to render package, file has no checksums''"
    by (simp add: Render_verify_def no_sums_def)
  then have "snd (fst (Render nameOnly no_sums))
      = Some ''unable to render package, file has no checksums''"
    by (simp add: Render_verify_fail)
  moreover have "\<not> sublist ''main.c'' ''unable to render package, file has no checksums''"
    by (simp add: sublist_code)
  moreover have
    "\<not> sublist ''SPDXRef-File-main'' ''unable to render package, file has no checksums''"
    by (simp add: sublist_code)
  ultimately show ?thesis by simp
qed

text \<open>
  C6, amended: for a package with \<open>FilesAnalyzed\<close> true, \<open>Render\<close> fails when the package
  has no files, and fails when some file has no checksums or no SHA1 entry; the error is
  one of three fixed messages; in each of these cases the returned fragment is empty and
  the package is left as it was.
\<close>

theorem C6_verification_failures:
  assumes "FilesAnalyzed p"
  shows "(Files p = [] \<longrightarrow>
            Render fr p
              = (('''', Some ''unable to get package verification code, package has no files''),
                 p))
       \<and> ((\<exists>kf \<in> set (Files p). fileSHA1 (snd kf) = None) \<longrightarrow>
            fst (fst (Render fr p)) = ''''
            \<and> (snd (fst (Render fr p)) = Some ''unable to render package, file has no checksums''
               \<or> snd (fst (Render fr p))
                  = Some ''unable to render package, files were analyzed but some do not have sha1 checksum'')
            \<and> snd (Render fr p) = p)"
proof (intro conjI impI)
  assume "Files p = []"
  with assms have "Render_verify p
      = Inl ''unable to get package verification code, package has no files''"
    by (simp add: Render_verify_def)
  then show "Render fr p
      = (('''', Some ''unable to get package verification code, package has no files''), p)"
    by (rule Render_verify_fail)
next
  assume bad: "\<exists>kf \<in> set (Files p). fileSHA1 (snd kf) = None"
  then have ne: "Files p \<noteq> []" by auto
  from bad have "isl (Render_collect (Files p) [] [])" by (simp add: Render_collect_isl)
  then obtain e where e: "Render_collect (Files p) [] [] = Inl e"
    by (cases "Render_collect (Files p) [] []") auto
  with assms ne have "Render_verify p = Inl e" by (simp add: Render_verify_def)
  then have r: "Render fr p = (('''', Some e), p)" by (rule Render_verify_fail)
  from r show "fst (fst (Render fr p)) = ''''" by simp
  from r show "snd (Render fr p) = p" by simp
  from r Render_collect_errors [OF e]
  show "snd (fst (Render fr p)) = Some ''unable to render package, file has no checksums''
      \<or> snd (fst (Render fr p))
        = Some ''unable to render package, files were analyzed but some do not have sha1 checksum''"
    by auto
qed

theorem C6_verification_failures_witness:
  "FilesAnalyzed hello \<and> Files hello = []
   \<and> Render nameOnly hello
       = (('''', Some ''unable to get package verification code, package has no files''), hello)
   \<and> FilesAnalyzed no_sums
   \<and> fst (fst (Render nameOnly no_sums)) = '''' \<and> snd (Render nameOnly no_sums) = no_sums"
  using C6_verification_failures [of hello nameOnly]
    C6_verification_failures [of no_sums nameOnly]
  by (simp add: hello_def no_sums_def fileSHA1_def)

section \<open>Sentinel values in the rendered fragment\<close>

text \<open>
  C7, as stated: a package with \<open>FilesAnalyzed\<close> false renders the line
  \<open>PackageLicenseInfoFromFiles: NONE\<close>. It does not: the fragment of a new package,
  whose \<open>FilesAnalyzed\<close> is false, has no such line, since the sentinel is appended
  inside the block that \<open>FilesAnalyzed\<close> guards.
\<close>

theorem C7_files_not_analyzed_counterexample:
  "\<not> FilesAnalyzed NewPackage
   \<and> snd (fst (Render nameOnly NewPackage)) = None
   \<and> \<not> sublist ''PackageLicenseInfoFromFiles: NONE'' (fst (fst (Render nameOnly NewPackage)))"
proof -
  have "\<not> sublist ''PackageLicenseInfoFromFiles: NONE''
          ''##### Package: \<newline>\<newline>PackageDownloadLocation: NONE\<newline>FilesAnalyzed: false\<newline>PackageLicenseConcluded: NOASSERTION\<newline>PackageLicenseDeclared: NOASSERTION\<newline>PackageCopyrightText: NOASSERTION\<newline>\<newline>''"
    by (simp add: sublist_code)
  then show ?thesis
    by (simp add: Render_NewPackage) (simp add: NewPackage_def)
qed

text \<open>
  C7, amended: when \<open>Render\<close> succeeds with fragment \<open>d\<close>: a package with
  \<open>FilesAnalyzed\<close> true whose files all have empty \<open>LicenseInfoInFile\<close> renders the line
  \<open>PackageLicenseInfoFromFiles: NONE\<close>; for a package with \<open>FilesAnalyzed\<close> false
  \<open>Render\<close> leaves \<open>LicenseInfoFromFiles\<close> as it was, and the fragment begins with the
  output of the template for the package as it was; a package with empty
  \<open>LicenseConcluded\<close> renders \<open>PackageLicenseConcluded: NOASSERTION\<close> and one with empty
  \<open>LicenseDeclared\<close> renders \<open>PackageLicenseDeclared: NOASSERTION\<close>. Each line is
  stated with the newline that ends the line before it and its own.
\<close>

theorem C7_sentinels:
  assumes "Render fr p = ((d, None), p2)"
  shows "(FilesAnalyzed p \<and> (\<forall>kf \<in> set (Files p). LicenseInfoInFile (snd kf) = '''') \<longrightarrow>
            sublist ''\<newline>PackageLicenseInfoFromFiles: NONE\<newline>'' d)
       \<and> (\<not> FilesAnalyzed p \<longrightarrow>
            LicenseInfoFromFiles p2 = LicenseInfoFromFiles p \<and> prefix (execTemplate p) d)
       \<and> (LicenseConcluded p = '''' \<longrightarrow>
            sublist ''\<newline>PackageLicenseConcluded: NOASSERTION\<newline>'' d)
       \<and> (LicenseDeclared p = '''' \<longrightarrow>
            sublist ''\<newline>PackageLicenseDeclared: NOASSERTION\<newline>'' d)"
proof -
  from Render_ok [OF assms] obtain p1 ps ds where v: "Render_verify p = Inr p1"
    and pre: "prefix (execTemplate p1) d"
    and p2: "p2 = set_Dependencies ds (set_Packages ps p1)"
    by blast
  from p2 have lf: "LicenseInfoFromFiles p2 = LicenseInfoFromFiles p1" by simp
  show ?thesis
  proof (intro conjI impI)
    assume a: "FilesAnalyzed p \<and> (\<forall>kf \<in> set (Files p). LicenseInfoInFile (snd kf) = '''')"
    with v have "LicenseInfoFromFiles p1 = LicenseInfoFromFiles p @ [''NONE'']"
      by (simp add: Render_verify_no_tags)
    from sublist_after_line [OF pre execTemplate_last_tag [OF this]]
    show "sublist ''\<newline>PackageLicenseInfoFromFiles: NONE\<newline>'' d" by simp
  next
    assume nfa: "\<not> FilesAnalyzed p"
    from Render_verify_fields(7) [OF v nfa] lf
    show "LicenseInfoFromFiles p2 = LicenseInfoFromFiles p" by simp
  next
    assume nfa: "\<not> FilesAnalyzed p"
    from Render_verify_fields(7) [OF v nfa] pre
    show "prefix (execTemplate p) d" by simp
  next
    assume "LicenseConcluded p = ''''"
    with v have "LicenseConcluded p1 = ''''" by (simp add: Render_verify_fields)
    from sublist_after_line [OF pre execTemplate_concluded [OF this]]
    show "sublist ''\<newline>PackageLicenseConcluded: NOASSERTION\<newline>'' d" by simp
  next
    assume "LicenseDeclared p = ''''"
    with v have "LicenseDeclared p1 = ''''" by (simp add: Render_verify_fields)
    from sublist_after_line [OF pre execTemplate_declared [OF this]]
    show "sublist ''\<newline>PackageLicenseDeclared: NOASSERTION\<newline>'' d" by simp
  qed
qed

theorem C7_sentinels_witness:
  "snd (fst (Render nameOnly two_plain)) = None
   \<and> FilesAnalyzed two_plain
   \<and> sublist ''\<newline>PackageLicenseInfoFromFiles: NONE\<newline>'' (fst (fst (Render nameOnly two_plain)))
   \<and> sublist ''\<newline>PackageLicenseConcluded: NOASSERTION\<newline>'' (fst (fst (Render nameOnly two_plain)))
   \<and> sublist ''\<newline>PackageLicenseDeclared: NOASSERTION\<newline>'' (fst (fst (Render nameOnly two_plain)))
   \<and> \<not> FilesAnalyzed NewPackage
   \<and> LicenseInfoFromFiles (snd (Render nameOnly NewPackage)) = LicenseInfoFromFiles NewPackage
   \<and> prefix (execTemplate NewPackage) (fst (fst (Render nameOnly NewPackage)))"
proof -
  obtain d e p2 where r: "Render nameOnly two_plain = ((d, e), p2)"
    by (cases "Render nameOnly two_plain") auto
  have e: "e = None"
    using r
    by (simp add: Render.simps Render_verify_def two_plain_def file_a_def nameOnly_def
        split: prod.splits)
  have fa: "FilesAnalyzed two_plain"
    and tags: "\<forall>kf \<in> set (Files two_plain). LicenseInfoInFile (snd kf) = ''''"
    and lc: "LicenseConcluded two_plain = ''''" and ld: "LicenseDeclared two_plain = ''''"
    by (simp_all add: two_plain_def file_a_def)
  from r e have r1: "Render nameOnly two_plain = ((d, None), p2)" by simp
  have r2: "Render nameOnly NewPackage = ((fst (fst (Render nameOnly NewPackage)), None), NewPackage)"
    by (simp add: Render_NewPackage)
  have nfa: "\<not> FilesAnalyzed NewPackage" by (simp add: NewPackage_def)
  from C7_sentinels [OF r2] nfa
  have new: "prefix (execTemplate NewPackage) (fst (fst (Render nameOnly NewPackage)))"
    by blast
  have same: "LicenseInfoFromFiles (snd (Render nameOnly NewPackage))
      = LicenseInfoFromFiles NewPackage"
    by (simp add: Render_NewPackage)
  from C7_sentinels [OF r1] fa tags lc ld r1 have two:
    "sublist ''\<newline>PackageLicenseInfoFromFiles: NONE\<newline>'' d
     \<and> sublist ''\<newline>PackageLicenseConcluded: NOASSERTION\<newline>'' d
     \<and> sublist ''\<newline>PackageLicenseDeclared: NOASSERTION\<newline>'' d"
    by blast
  from r1 have "fst (fst (Render nameOnly two_plain)) = d"
    and "snd (fst (Render nameOnly two_plain)) = None" by simp_all
  with two fa nfa new same show ?thesis by (simp only: simp_thms)
qed

section \<open>The end-to-end example\<close>

text \<open>
  C4, as stated: the fragment of the example ends with the line
  \<open>Relationship: Package-hello CONTAINS File-<hash of "hello:main.c">\<close>. It does not:
  \<open>Render\<close> derives no ID for the package it is called on, so the package ID in the
  line is empty, and the file ID starts with \<open>SPDXRef-\<close>.
\<close>

theorem C4_relationship_line_counterexample:
  "snd (fst (Render nameOnly (fst (snd (AddFile hello main_c))))) = None
   \<and> \<not> suffix (''Relationship: Package-hello CONTAINS File-'' @ sha1hex ''hello:main.c''
                 @ ''\<newline>\<newline>'')
         (fst (fst (Render nameOnly (fst (snd (AddFile hello main_c))))))"
proof -
  let ?d = "fst (Render nameOnly (fst (snd (AddFile hello main_c))))"
  have fr: "nameOnly (main_c\<lparr>ID_F := ''SPDXRef-File-'' @ sha1hex ''hello:main.c''\<rparr>)
      = (''FileName: main.c\<newline>'', None)"
    by (simp add: nameOnly_def main_c_def)
  have d: "fst ?d
      = ((''##### Package: hello\<newline>\<newline>PackageName: hello\<newline>PackageDownloadLocation: NONE\<newline>FilesAnalyzed: true\<newline>PackageVerificationCode: ''
          @ sha1hex ''aaaaaaaaaaaaaaaaaaaaaaaaaaaaaaaaaaaaaaaa''
          @ ''\<newline>PackageLicenseConcluded: NOASSERTION\<newline>PackageLicenseInfoFromFiles: NONE\<newline>PackageLicenseDeclared: NOASSERTION\<newline>PackageCopyrightText: NOASSERTION\<newline>\<newline>FileName: main.c\<newline>'')
         @ ''Relationship:  CONTAINS SPDXRef-File-'')
        @ (sha1hex ''hello:main.c'' @ ''\<newline>\<newline>'')"
    and e: "snd ?d = None"
    by (simp_all add: AddFile_hello(3) Render_hello_main [where fr = nameOnly, OF fr] optLine_def)
  have tail: "\<not> suffix ''Relationship: Package-hello CONTAINS File-''
      (xs @ ''Relationship:  CONTAINS SPDXRef-File-'')" for xs :: string
    by (simp add: suffix_to_prefix prefix_code)
  have "\<not> suffix (''Relationship: Package-hello CONTAINS File-''
                  @ (sha1hex ''hello:main.c'' @ ''\<newline>\<newline>''))
          ((xs @ ''Relationship:  CONTAINS SPDXRef-File-'')
                  @ (sha1hex ''hello:main.c'' @ ''\<newline>\<newline>''))" for xs :: string
    unfolding same_suffix_suffix by (rule tail)
  then have "\<not> suffix (''Relationship: Package-hello CONTAINS File-''
                  @ sha1hex ''hello:main.c'' @ ''\<newline>\<newline>'') (fst ?d)"
    unfolding d .
  with e show ?thesis by blast
qed

text \<open>
  C4, amended: the package with \<open>Name\<close> \<open>hello\<close> and any ID \<open>i\<close>, one file \<open>main.c\<close>
  with SHA1 \<open>aaaa\<dots>\<close> (40 characters) attached by \<open>AddFile\<close>, \<open>FilesAnalyzed\<close> true
  and no license fields, renders without error whenever the file does. The fragment is
  the header below, with \<open>PackageVerificationCode: \<close> followed by the hex SHA1 digest of
  that hash string and the line \<open>PackageLicenseInfoFromFiles: NONE\<close>, then the file's
  fragment, and it ends with
  \<open>Relationship: <i> CONTAINS SPDXRef-File-<hash of "hello:main.c">\<close>.
\<close>

theorem C4_end_to_end:
  assumes "fr (snd (snd (AddFile (set_ID i hello) main_c))) = (fileFragment, None)"
  shows "fst (AddFile (set_ID i hello) main_c) = None
       \<and> fst (Render fr (fst (snd (AddFile (set_ID i hello) main_c))))
         = (''##### Package: hello\<newline>\<newline>PackageName: hello\<newline>''
            @ (if i \<noteq> '''' then ''SPDXID: '' @ htmlEscape i @ ''\<newline>'' else '''')
            @ ''PackageDownloadLocation: NONE\<newline>FilesAnalyzed: true\<newline>''
            @ ''PackageVerificationCode: '' @ sha1hex ''aaaaaaaaaaaaaaaaaaaaaaaaaaaaaaaaaaaaaaaa''
            @ ''\<newline>PackageLicenseConcluded: NOASSERTION\<newline>''
            @ ''PackageLicenseInfoFromFiles: NONE\<newline>''
            @ ''PackageLicenseDeclared: NOASSERTION\<newline>''
            @ ''PackageCopyrightText: NOASSERTION\<newline>\<newline>''
            @ fileFragment
            @ ''Relationship: '' @ i @ '' CONTAINS SPDXRef-File-'' @ sha1hex ''hello:main.c''
            @ ''\<newline>\<newline>'',
            None)"
proof -
  have p: "fst (snd (AddFile (set_ID i hello) main_c)) = hello_main i [] ''''"
    by (simp add: AddFile_def hello_def main_c_def hello_main_def Let_def)
  from assms have "fr (main_c\<lparr>ID_F := ''SPDXRef-File-'' @ sha1hex ''hello:main.c''\<rparr>)
      = (fileFragment, None)"
    by (simp add: AddFile_hello(2))
  from Render_hello_main [where fr = fr, OF this, of i "[]" "''''"] show ?thesis
    by (simp add: p AddFile_hello(1) optLine_def)
qed

theorem C4_end_to_end_witness:
  "nameOnly (snd (snd (AddFile (set_ID ''SPDXRef-Package-hello'' hello) main_c)))
     = (''FileName: main.c\<newline>'', None)
   \<and> fst (Render nameOnly (fst (snd (AddFile (set_ID ''SPDXRef-Package-hello'' hello) main_c))))
     = (''##### Package: hello\<newline>\<newline>PackageName: hello\<newline>SPDXID: SPDXRef-Package-hello\<newline>PackageDownloadLocation: NONE\<newline>FilesAnalyzed: true\<newline>PackageVerificationCode: ''
        @ sha1hex ''aaaaaaaaaaaaaaaaaaaaaaaaaaaaaaaaaaaaaaaa''
        @ ''\<newline>PackageLicenseConcluded: NOASSERTION\<newline>PackageLicenseInfoFromFiles: NONE\<newline>PackageLicenseDeclared: NOASSERTION\<newline>PackageCopyrightText: NOASSERTION\<newline>\<newline>FileName: main.c\<newline>Relationship: SPDXRef-Package-hello CONTAINS SPDXRef-File-''
        @ sha1hex ''hello:main.c'' @ ''\<newline>\<newline>'',
        None)"
proof -
  have fr: "nameOnly (snd (snd (AddFile (set_ID ''SPDXRef-Package-hello'' hello) main_c)))
     = (''FileName: main.c\<newline>'', None)"
    by (simp add: nameOnly_def AddFile_hello(2)) (simp add: main_c_def)
  from C4_end_to_end [where fr = nameOnly, OF fr] fr show ?thesis
    by (simp add: htmlEscape_def htmlEscapeChar_def)
qed

section \<open>Rendering twice\<close>

text \<open>
  C8 at the package of the end-to-end example: the first \<open>Render\<close> leaves
  \<open>LicenseInfoFromFiles = [NONE]\<close>; the second appends to that list instead of
  replacing it, so it leaves \<open>[NONE, NONE]\<close> and returns a fragment that differs from
  the first by a second \<open>PackageLicenseInfoFromFiles: NONE\<close> line. \<open>VerificationCode\<close>
  is assigned afresh and is the same after both calls, and the IDs in the tree are those
  it had before the first call.
\<close>

theorem C8_second_render_differs:
  "snd (fst (Render nameOnly (fst (snd (AddFile hello main_c))))) = None
   \<and> snd (fst (Render nameOnly (snd (Render nameOnly (fst (snd (AddFile hello main_c))))))) = None
   \<and> fst (fst (Render nameOnly (snd (Render nameOnly (fst (snd (AddFile hello main_c)))))))
       \<noteq> fst (fst (Render nameOnly (fst (snd (AddFile hello main_c)))))
   \<and> LicenseInfoFromFiles (snd (Render nameOnly (fst (snd (AddFile hello main_c))))) = [''NONE'']
   \<and> LicenseInfoFromFiles
        (snd (Render nameOnly (snd (Render nameOnly (fst (snd (AddFile hello main_c)))))))
       = [''NONE'', ''NONE'']
   \<and> VerificationCode
        (snd (Render nameOnly (snd (Render nameOnly (fst (snd (AddFile hello main_c)))))))
       = VerificationCode (snd (Render nameOnly (fst (snd (AddFile hello main_c)))))
   \<and> allIDs (snd (Render nameOnly (snd (Render nameOnly (fst (snd (AddFile hello main_c)))))))
       = allIDs (fst (snd (AddFile hello main_c)))"
proof -
  have fr: "nameOnly (main_c\<lparr>ID_F := ''SPDXRef-File-'' @ sha1hex ''hello:main.c''\<rparr>)
      = (''FileName: main.c\<newline>'', None)"
    by (simp add: nameOnly_def main_c_def)
  have fields: "LicenseInfoFromFiles (hello_main i tags vc) = tags"
    "VerificationCode (hello_main i tags vc) = vc" for i tags vc
    by (simp_all add: hello_main_def)
  have ids: "allIDs (snd (Render nameOnly (snd (Render nameOnly (fst (snd (AddFile hello main_c)))))))
      = allIDs (fst (snd (AddFile hello main_c)))"
    by (simp only: Render_keeps_IDs(1))
  have "snd (fst (Render nameOnly (fst (snd (AddFile hello main_c))))) = None
   \<and> snd (fst (Render nameOnly (snd (Render nameOnly (fst (snd (AddFile hello main_c))))))) = None
   \<and> fst (fst (Render nameOnly (snd (Render nameOnly (fst (snd (AddFile hello main_c)))))))
       \<noteq> fst (fst (Render nameOnly (fst (snd (AddFile hello main_c)))))
   \<and> LicenseInfoFromFiles (snd (Render nameOnly (fst (snd (AddFile hello main_c))))) = [''NONE'']
   \<and> LicenseInfoFromFiles
        (snd (Render nameOnly (snd (Render nameOnly (fst (snd (AddFile hello main_c)))))))
       = [''NONE'', ''NONE'']
   \<and> VerificationCode
        (snd (Render nameOnly (snd (Render nameOnly (fst (snd (AddFile hello main_c)))))))
       = VerificationCode (snd (Render nameOnly (fst (snd (AddFile hello main_c)))))"
    by (simp add: AddFile_hello(3) Render_hello_main [where fr = nameOnly, OF fr] fields optLine_def
        licenseInfoLine_def)
  with ids show ?thesis by blast
qed

section \<open>Reading the source file of a package\<close>

text \<open>
  C9: for a package whose options are allocated (as \<open>NewPackage\<close> does), on an existing
  path whose two digests can be computed, \<open>ReadSourceFile\<close> returns without error,
  \<open>Checksum\<close> holds the SHA256 and the SHA512 digest under these two distinct keys,
  \<open>SourceFile\<close> is the path, and \<open>FileName\<close> is the path without the working directory
  and the separator in front, or the whole path when it does not start with them. On a
  path that does not exist it returns an error and the package is as it was.
\<close>

theorem C9_ReadSourceFile:
  "(exists path \<and> sha256 path = Inr s256 \<and> sha512 path = Inr s512 \<and> options p = Some opts \<longrightarrow>
      (\<exists>p1. ReadSourceFile exists sha256 sha512 p path = Returns (None, p1)
         \<and> Checksum p1 = [(''SHA256'', s256), (''SHA512'', s512)]
         \<and> map_of (Checksum p1) ''SHA256'' = Some s256
         \<and> map_of (Checksum p1) ''SHA512'' = Some s512
         \<and> SourceFile p1 = path
         \<and> (\<forall>rest. path = WorkDir opts @ [Separator] @ rest \<longrightarrow> FileName p1 = rest)
         \<and> (\<not> prefix (WorkDir opts @ [Separator]) path \<longrightarrow> FileName p1 = path)
         \<and> Name p1 = Name p \<and> ID p1 = ID p \<and> Files p1 = Files p
         \<and> Packages p1 = Packages p \<and> Dependencies p1 = Dependencies p))
   \<and> (\<not> exists path \<longrightarrow>
        ReadSourceFile exists sha256 sha512 p path
          = Returns (Some ''unable to find package source file'', p))"
  by (auto simp: ReadSourceFile_def TrimPrefix_def Let_def)

theorem C9_ReadSourceFile_witness:
  "disk_exists ''/src/out/pkg.tar''
   \<and> ReadSourceFile disk_exists disk_sha256 disk_sha512 in_src ''/src/out/pkg.tar''
       = Returns (None,
           set_FileName ''out/pkg.tar'' (set_SourceFile ''/src/out/pkg.tar''
             (set_Checksum [(''SHA256'', ''2c26b46b''), (''SHA512'', ''f7fbba6e'')] in_src)))
   \<and> ReadSourceFile disk_exists disk_sha256 disk_sha512 in_tmp ''/src/out/pkg.tar''
       = Returns (None,
           set_FileName ''/src/out/pkg.tar'' (set_SourceFile ''/src/out/pkg.tar''
             (set_Checksum [(''SHA256'', ''2c26b46b''), (''SHA512'', ''f7fbba6e'')] in_tmp)))
   \<and> \<not> disk_exists ''/src/out/none.tar''
   \<and> ReadSourceFile disk_exists disk_sha256 disk_sha512 in_src ''/src/out/none.tar''
       = Returns (Some ''unable to find package source file'', in_src)"
  using C9_ReadSourceFile [of disk_exists "''/src/out/pkg.tar''" disk_sha256 "''2c26b46b''"
      disk_sha512 "''f7fbba6e''" in_src "\<lparr>WorkDir = ''/src''\<rparr>"]
    C9_ReadSourceFile [of disk_exists "''/src/out/none.tar''" disk_sha256 "''2c26b46b''"
      disk_sha512 "''f7fbba6e''" in_src "\<lparr>WorkDir = ''/src''\<rparr>"]
  by (simp add: disk_exists_def disk_sha256_def disk_sha512_def in_src_def in_tmp_def
      ReadSourceFile_def TrimPrefix_def Separator_def)

section \<open>Values are printed HTML-escaped\<close>

text \<open>
  C10: \<open>Render\<close> runs the package through \<open>html/template\<close>. Every value \<open>v\<close> that the
  template prints stands in the fragment of a successful render in its escaped form
  \<open>htmlEscape v\<close>; a value that holds one of \<open><\<close>, \<open>>\<close>, \<open>&\<close>, \<open>"\<close>, \<open>'\<close> differs from
  its escaped form, which holds none of \<open><\<close>, \<open>>\<close>, \<open>"\<close>, \<open>'\<close>. So for some inputs the
  fragment does not contain the literal value: the package named \<open>a<b\<close> renders with
  \<open>a&lt;b\<close> in its fragment and without \<open>a<b\<close>.
\<close>

theorem C10_values_are_html_escaped:
  "(Render fr p = ((d, None), p2) \<and> v \<in> set (printedValues p2) \<longrightarrow> sublist (htmlEscape v) d)
   \<and> ((\<exists>c \<in> set v. c \<in> {CHR ''<'', CHR ''>'', CHR ''&'', CHR 0x22, CHR 0x27}) \<longrightarrow>
        htmlEscape v \<noteq> v)
   \<and> set (htmlEscape v) \<inter> {CHR ''<'', CHR ''>'', CHR 0x22, CHR 0x27} = {}
   \<and> snd (fst (Render nameOnly lt_name)) = None
   \<and> \<not> sublist (Name lt_name) (fst (fst (Render nameOnly lt_name)))
   \<and> sublist ''a&lt;b'' (fst (fst (Render nameOnly lt_name)))"
proof (intro conjI impI)
  assume a: "Render fr p = ((d, None), p2) \<and> v \<in> set (printedValues p2)"
  with Render_ok [of fr p d p2] obtain p1 ps ds where pre: "prefix (execTemplate p1) d"
    and p2: "p2 = set_Dependencies ds (set_Packages ps p1)"
    by blast
  from a p2 have "v \<in> set (printedValues p1)" by simp
  then have "sublist (htmlEscape v) (execTemplate p1)" by (rule sublist_execTemplate)
  then obtain a b where "execTemplate p1 = a @ htmlEscape v @ b"
    by (auto simp: sublist_def)
  with pre show "sublist (htmlEscape v) d" by (rule sublist_of_prefix)
next
  assume "\<exists>c \<in> set v. c \<in> {CHR ''<'', CHR ''>'', CHR ''&'', CHR 0x22, CHR 0x27}"
  then obtain c where "c \<in> set v" "c \<in> {CHR ''<'', CHR ''>'', CHR ''&'', CHR 0x22, CHR 0x27}"
    by blast
  then show "htmlEscape v \<noteq> v" by (rule htmlEscape_changes)
next
  show "set (htmlEscape v) \<inter> {CHR ''<'', CHR ''>'', CHR 0x22, CHR 0x27} = {}"
    by (rule htmlEscape_no_raw)
next
  show "snd (fst (Render nameOnly lt_name)) = None"
    by (simp add: Render_lt_name)
next
  have "\<not> sublist ''a<b''
      ''##### Package: a&lt;b\<newline>\<newline>PackageName: a&lt;b\<newline>PackageDownloadLocation: NONE\<newline>FilesAnalyzed: false\<newline>PackageLicenseConcluded: NOASSERTION\<newline>PackageLicenseDeclared: NOASSERTION\<newline>PackageCopyrightText: NOASSERTION\<newline>\<newline>''"
    by (simp add: sublist_code)
  then show "\<not> sublist (Name lt_name) (fst (fst (Render nameOnly lt_name)))"
    by (simp add: Render_lt_name) (simp add: lt_name_def)
next
  have "sublist ''a&lt;b''
      (''##### Package: '' @ ''a&lt;b'' @ ''\<newline>\<newline>PackageName: a&lt;b\<newline>PackageDownloadLocation: NONE\<newline>FilesAnalyzed: false\<newline>PackageLicenseConcluded: NOASSERTION\<newline>PackageLicenseDeclared: NOASSERTION\<newline>PackageCopyrightText: NOASSERTION\<newline>\<newline>'')"
    by (rule sublist_appendI)
  then show "sublist ''a&lt;b'' (fst (fst (Render nameOnly lt_name)))"
    by (simp add: Render_lt_name)
qed

theorem C10_values_are_html_escaped_witness:
  "Render nameOnly lt_name = ((fst (fst (Render nameOnly lt_name)), None), lt_name)
   \<and> ''a<b'' \<in> set (printedValues lt_name)
   \<and> sublist (htmlEscape ''a<b'') (fst (fst (Render nameOnly lt_name)))
   \<and> htmlEscape ''a<b'' = ''a&lt;b''
   \<and> htmlEscape ''a<b'' \<noteq> ''a<b''"
  using C10_values_are_html_escaped [of nameOnly lt_name "fst (fst (Render nameOnly lt_name))"
      lt_name "''a<b''"]
  by (simp add: Render_lt_name printedValues_def htmlEscape_def htmlEscapeChar_def)
     (simp add: lt_name_def)

end
